theory Spec2Isabelle
  imports
    Main
    "HOL-Library.Multiset"
    "HOL-Library.Char_ord"
    "HOL-Library.List_Lexorder"
    "HOL-Library.AList"
begin

section \<open>Image assembly and publishing (pkg/build/oci/oci.go)\<close>

text \<open>
  A shallow embedding of \<^verbatim>\<open>pkg/build/oci/oci.go\<close>. Go strings are byte strings
  (\<^typ>\<open>string\<close>, ordered bytewise as Go's \<^verbatim>\<open><\<close> and \<^verbatim>\<open>sort.Strings\<close> do). A Go
  \<^verbatim>\<open>map[string]string\<close> is an association list with distinct keys whose order is
  the order in which one \<^verbatim>\<open>range\<close> would visit it; Go leaves that order open, so two
  lists that are permutations of each other stand for the same map. A function
  returning \<^verbatim>\<open>(T, error)\<close> returns \<open>error + T\<close>, with \<open>Inl\<close> the error.

  The calls into other packages (go-containerregistry, cosign, shlex, the docker
  daemon, the registry) are not part of this file. Each one that can fail is a field
  of the record \<open>lib\<close> (pure functions) or \<open>services\<close> (calls whose answer depends
  on the outside world): the theorems hold for every behaviour of these. Calls that
  only shape data and cannot fail are record updates.
\<close>

subsection \<open>Values\<close>

type_synonym media_type = string

definition OCILayer :: media_type where
  "OCILayer = ''application/vnd.oci.image.layer.v1.tar+gzip''"

definition DockerLayer :: media_type where
  "DockerLayer = ''application/vnd.docker.image.rootfs.diff.tar.gzip''"

definition OCIManifestSchema1 :: media_type where
  "OCIManifestSchema1 = ''application/vnd.oci.image.manifest.v1+json''"

definition OCIConfigJSON :: media_type where
  "OCIConfigJSON = ''application/vnd.oci.image.config.v1+json''"

definition OCIImageIndex :: media_type where
  "OCIImageIndex = ''application/vnd.oci.image.index.v1+json''"

definition DockerManifestList :: media_type where
  "DockerManifestList = ''application/vnd.docker.distribution.manifest.list.v2+json''"

definition SPDXJSONMediaType :: media_type where
  "SPDXJSONMediaType = ''spdx+json''"

definition CycloneDXJSONMediaType :: media_type where
  "CycloneDXJSONMediaType = ''application/vnd.cyclonedx+json''"

definition LocalDomain :: string where
  "LocalDomain = ''apko.local''"

definition LocalRepo :: string where
  "LocalRepo = ''cache''"

text \<open>\<^verbatim>\<open>v1.Hash\<close> and its \<^verbatim>\<open>String()\<close>.\<close>

record hash =
  hash_Algorithm :: string
  hash_Hex :: string

definition hash_String :: "hash \<Rightarrow> string" where
  "hash_String h = hash_Algorithm h @ '':'' @ hash_Hex h"

text \<open>
  Errors: \<^verbatim>\<open>errors.New(s)\<close> and an error of another package are \<open>Error s\<close>;
  \<^verbatim>\<open>fmt.Errorf("msg: %w", err)\<close> is \<open>Wrap msg err\<close>; \<^verbatim>\<open>retry.Do\<close> returns the
  errors of all its attempts.
\<close>

datatype error = Error string | Wrap string error | RetryError "error list"

text \<open>
  Modelled from the spec: \<^verbatim>\<open>types.Architecture\<close> is declared outside this file. The
  spec calls it a value type with no identity beyond its string form, so it is that
  string; its maps to an OCI platform and to an APK name are fields of \<open>lib\<close>.
\<close>

datatype architecture = Architecture string

fun arch_String :: "architecture \<Rightarrow> string" where
  "arch_String (Architecture s) = s"

record platform =
  plat_OS :: string
  plat_Architecture :: string
  plat_Variant :: string

text \<open>
  Modelled from the spec: \<^verbatim>\<open>types.ImageConfiguration\<close> is declared outside this file.
  These are the fields this file reads, at the types it uses them at; the spec lists
  the same fields. \<open>ic_Annotations\<close> is a Go map, that is a reference: \<open>None\<close> is the
  nil map, \<open>Some a\<close> the map stored at address \<open>a\<close> of the heap, shared with the
  caller. \<open>ic_Environment\<close> is only read, so it is held by value.
\<close>

record ic_entrypoint =
  ShellFragment :: string
  Command :: string

record ic_accounts =
  RunAs :: string

record image_configuration =
  ic_Annotations :: "nat option"
  ic_VCSUrl :: string
  ic_Entrypoint :: ic_entrypoint
  ic_Cmd :: string
  ic_WorkDir :: string
  ic_Environment :: "(string \<times> string) list"
  ic_Accounts :: ic_accounts

text \<open>\<^verbatim>\<open>v1.History\<close>, \<^verbatim>\<open>v1.Config\<close>, \<^verbatim>\<open>v1.ConfigFile\<close>, layers and images.\<close>

record history =
  hist_Author :: string
  hist_Comment :: string
  hist_CreatedBy :: string
  hist_Created :: int

record config =
  cfg_Labels :: "(string \<times> string) list"
  cfg_Entrypoint :: "string list"
  cfg_Cmd :: "string list"
  cfg_WorkingDir :: string
  cfg_Env :: "string list"
  cfg_User :: string

record config_file =
  cf_Author :: string
  cf_Architecture :: string
  cf_Variant :: string
  cf_Created :: int
  cf_OS :: string
  cf_Config :: config
  cf_History :: "history list"
  cf_DiffIDs :: "hash list"

record layer =
  layer_MediaType :: media_type
  layer_Content :: string

record addendum =
  add_Layer :: layer
  add_History :: history

record oci_file =
  file_Payload :: string
  file_LayerMediaType :: media_type

record image =
  img_MediaType :: media_type
  img_ConfigMediaType :: media_type
  img_Layers :: "layer list"
  img_Annotations :: "string \<rightharpoonup> string"
  img_ConfigFile :: config_file
  img_Attachments :: "(string \<times> oci_file) list"

record descriptor =
  desc_MediaType :: media_type
  desc_Digest :: hash
  desc_Size :: int
  desc_Platform :: "platform option"

record index_addendum =
  ia_Add :: image
  ia_Descriptor :: descriptor

record index =
  idx_MediaType :: media_type
  idx_Manifests :: "index_addendum list"
  idx_Attachments :: "(string \<times> oci_file) list"

text \<open>
  \<^verbatim>\<open>oci.SignedEntity\<close> is an interface; the file tells a signed image from a signed
  index by a type switch and has a branch for anything else.
\<close>

datatype signed_entity = SignedImage image | SignedImageIndex index | SignedUnknown

text \<open>\<^verbatim>\<open>name.Tag\<close>, \<^verbatim>\<open>name.Digest\<close>, \<^verbatim>\<open>name.Reference\<close>; a repository is its name.\<close>

record name_tag =
  tag_Repository :: string
  tag_TagStr :: string

record name_digest =
  dig_Repository :: string
  dig_DigestStr :: string

datatype reference = TagRef name_tag | DigestRef name_digest

definition tag_Name :: "name_tag \<Rightarrow> string" where
  "tag_Name t = tag_Repository t @ '':'' @ tag_TagStr t"

fun ref_Context :: "reference \<Rightarrow> string" where
  "ref_Context (TagRef t) = tag_Repository t"
| "ref_Context (DigestRef d) = dig_Repository d"

fun ref_String :: "reference \<Rightarrow> string" where
  "ref_String (TagRef t) = tag_Name t"
| "ref_String (DigestRef d) = dig_Repository d @ ''@'' @ dig_DigestStr d"

text \<open>\<^verbatim>\<open>repo.Digest(identifier)\<close> and the zero value \<^verbatim>\<open>name.Digest{}\<close>.\<close>

definition repo_Digest :: "string \<Rightarrow> string \<Rightarrow> name_digest" where
  "repo_Digest repo identifier = \<lparr>dig_Repository = repo, dig_DigestStr = identifier\<rparr>"

definition zero_Digest :: name_digest where
  "zero_Digest = \<lparr>dig_Repository = [], dig_DigestStr = []\<rparr>"

subsection \<open>The outside world\<close>

text \<open>
  What a call can observe or change outside its arguments: the file system (a path
  that cannot be read maps to \<open>None\<close>), the process environment (\<^verbatim>\<open>os.Getenv\<close>
  gives the empty string for an unset variable), the heap of Go maps, and the trace
  of log lines and of writes to the daemon and the registry, oldest first.
\<close>

datatype level = DebugLevel | InfoLevel | WarnLevel | ErrorLevel

datatype artifact = ImageArtifact image | FileArtifact oci_file

datatype event =
    Log level string
  | DaemonWrite name_tag image
  | DaemonTag name_tag name_tag
  | RemoteWrite reference artifact
  | RemoteWriteIndex reference index

record world =
  files :: "string \<rightharpoonup> string"
  environ :: "string \<Rightarrow> string"
  heap :: "nat \<Rightarrow> (string \<times> string) list"
  trace :: "event list"

definition emit :: "event \<Rightarrow> world \<Rightarrow> world" where
  "emit e w = w\<lparr>trace := trace w @ [e]\<rparr>"

text \<open>The pure functions of the libraries.\<close>

record lib =
  v1tar_LayerFromFile :: "(string \<rightharpoonup> string) \<Rightarrow> string \<Rightarrow> media_type \<Rightarrow> error + layer"
  layer_Digest :: "layer \<Rightarrow> error + hash"
  layer_DiffID :: "layer \<Rightarrow> error + hash"
  empty_Image :: image
  mutate_Append :: "image \<Rightarrow> addendum \<Rightarrow> error + image"
  image_ConfigFile :: "image \<Rightarrow> error + config_file"
  mutate_ConfigFile :: "image \<Rightarrow> config_file \<Rightarrow> error + image"
  shlex_Split :: "string \<Rightarrow> error + string list"
  ToOCIPlatform :: "architecture \<Rightarrow> platform"
  ToAPK :: "architecture \<Rightarrow> string"
  filepath_Join :: "string \<Rightarrow> string \<Rightarrow> string"
  static_NewFile :: "string \<Rightarrow> media_type \<Rightarrow> error + oci_file"
  AttachFileToImage :: "image \<Rightarrow> string \<Rightarrow> oci_file \<Rightarrow> error + image"
  AttachFileToImageIndex :: "index \<Rightarrow> string \<Rightarrow> oci_file \<Rightarrow> error + index"
  image_Digest :: "image \<Rightarrow> error + hash"
  image_Size :: "image \<Rightarrow> error + int"
  image_MediaType :: "image \<Rightarrow> error + media_type"
  image_Attachment :: "image \<Rightarrow> string \<Rightarrow> error + oci_file"
  index_Digest :: "index \<Rightarrow> error + hash"
  index_IndexManifest :: "index \<Rightarrow> error + descriptor list"
  index_Attachment :: "index \<Rightarrow> string \<Rightarrow> error + oci_file"
  name_ParseReference :: "string \<Rightarrow> error + reference"
  name_NewTag :: "string \<Rightarrow> error + name_tag"
  name_NewDigest :: "string \<Rightarrow> error + name_digest"
  GetEnvTargetRepository :: "(string \<Rightarrow> string) \<Rightarrow> error + string"
  SBOMTag :: "name_digest \<Rightarrow> string option \<Rightarrow> error + name_tag"

text \<open>
  The calls whose answer depends on the outside world: the docker daemon and the
  registry. Each gets the world as it is at the call, whose trace holds every earlier
  call, and gives the answer; the model appends the call to the trace.
\<close>

record services =
  daemon_Write :: "world \<Rightarrow> name_tag \<Rightarrow> image \<Rightarrow> string \<times> error option"
  daemon_Tag :: "world \<Rightarrow> name_tag \<Rightarrow> name_tag \<Rightarrow> error option"
  remote_Write :: "world \<Rightarrow> reference \<Rightarrow> artifact \<Rightarrow> error option"
  remote_WriteIndex :: "world \<Rightarrow> reference \<Rightarrow> index \<Rightarrow> error option"

text \<open>Data shaping of go-containerregistry that cannot fail.\<close>

definition mutate_MediaType :: "image \<Rightarrow> media_type \<Rightarrow> image" where
  "mutate_MediaType img mt = img\<lparr>img_MediaType := mt\<rparr>"

definition mutate_ConfigMediaType :: "image \<Rightarrow> media_type \<Rightarrow> image" where
  "mutate_ConfigMediaType img mt = img\<lparr>img_ConfigMediaType := mt\<rparr>"

text \<open>
  \<^verbatim>\<open>mutate.Annotations\<close> hands the map to the image; the manifest the image computes
  at the next \<^verbatim>\<open>ConfigFile()\<close> holds a copy of its entries, so the image keeps the map
  by value, as a finite map.
\<close>

definition mutate_Annotations :: "image \<Rightarrow> (string \<times> string) list \<Rightarrow> image" where
  "mutate_Annotations img anns = img\<lparr>img_Annotations := img_Annotations img ++ map_of anns\<rparr>"

subsection \<open>Go library functions with a fixed meaning\<close>

text \<open>\<^verbatim>\<open>strings.Cut(s, sep)\<close> for a separator of one byte.\<close>

definition strings_Cut :: "string \<Rightarrow> char \<Rightarrow> string \<times> string \<times> bool" where
  "strings_Cut s sep =
     (if sep \<in> set s
      then (takeWhile (\<lambda>c. c \<noteq> sep) s, tl (dropWhile (\<lambda>c. c \<noteq> sep) s), True)
      else (s, [], False))"

text \<open>\<^verbatim>\<open>fmt.Sprintf("%s=%s", k, v)\<close>.\<close>

definition env_entry :: "string \<times> string \<Rightarrow> string" where
  "env_entry kv = fst kv @ ''='' @ snd kv"

definition humanReadableImageType :: "media_type \<Rightarrow> string" where
  "humanReadableImageType mediaType =
     (if mediaType = DockerLayer then ''Docker''
      else if mediaType = OCILayer then ''OCI''
      else ''unknown'')"

subsection \<open>buildImageFromLayerWithMediaType\<close>

text \<open>
  Lines 114 to 123: the annotations of the image. \<open>annotations := ic.Annotations\<close>
  copies the reference, not the map, so the two assignments write into the caller's
  map unless it was nil.
\<close>

definition vcs_annotations :: "image_configuration \<Rightarrow> (string \<times> string) list \<Rightarrow> (string \<times> string) list" where
  "vcs_annotations ic annotations =
     (if ic_VCSUrl ic \<noteq> [] then
        (case strings_Cut (ic_VCSUrl ic) (CHR ''@'') of
           (url, hash, ok) \<Rightarrow>
             if ok then
               AList.update ''org.opencontainers.image.revision'' hash
                 (AList.update ''org.opencontainers.image.source'' url annotations)
             else annotations)
      else annotations)"

definition build_annotations :: "image_configuration \<Rightarrow> world \<Rightarrow> (string \<times> string) list \<times> world" where
  "build_annotations ic w =
     (case ic_Annotations ic of
        None \<Rightarrow> (vcs_annotations ic [], w)
      | Some a \<Rightarrow>
          (let annotations = vcs_annotations ic (heap w a)
           in (annotations, w\<lparr>heap := (heap w)(a := annotations)\<rparr>)))"

text \<open>
  Lines 134 to 185: the config file of the image, from the one of the base image.
  \<^verbatim>\<open>cfg.DeepCopy()\<close> is the identity on values.
\<close>

definition default_Env :: "string list" where
  "default_Env =
     [''PATH=/usr/local/sbin:/usr/local/bin:/usr/sbin:/usr/bin:/sbin:/bin'',
      ''SSL_CERT_FILE=/etc/ssl/certs/ca-certificates.crt'']"

definition set_Config :: "(config \<Rightarrow> config) \<Rightarrow> config_file \<Rightarrow> config_file" where
  "set_Config f cfg = cfg\<lparr>cf_Config := f (cf_Config cfg)\<rparr>"

definition config_Entrypoint :: "lib \<Rightarrow> image_configuration \<Rightarrow> config_file \<Rightarrow> error + config_file" where
  "config_Entrypoint l ic cfg =
     (if ShellFragment (ic_Entrypoint ic) \<noteq> [] then
        Inr (set_Config (\<lambda>c. c\<lparr>cfg_Entrypoint := [''/bin/sh'', ''-c'', ShellFragment (ic_Entrypoint ic)]\<rparr>) cfg)
      else if Command (ic_Entrypoint ic) \<noteq> [] then
        (case shlex_Split l (Command (ic_Entrypoint ic)) of
           Inl err \<Rightarrow> Inl (Wrap ''unable to parse entrypoint command'' err)
         | Inr splitcmd \<Rightarrow> Inr (set_Config (\<lambda>c. c\<lparr>cfg_Entrypoint := splitcmd\<rparr>) cfg))
      else Inr cfg)"

definition config_Cmd :: "lib \<Rightarrow> image_configuration \<Rightarrow> config_file \<Rightarrow> error + config_file" where
  "config_Cmd l ic cfg =
     (if ic_Cmd ic \<noteq> [] then
        (case shlex_Split l (ic_Cmd ic) of
           Inl err \<Rightarrow> Inl (Wrap ''unable to parse cmd'' err)
         | Inr splitcmd \<Rightarrow> Inr (set_Config (\<lambda>c. c\<lparr>cfg_Cmd := splitcmd\<rparr>) cfg))
      else Inr cfg)"

definition config_Rest :: "image_configuration \<Rightarrow> config_file \<Rightarrow> config_file" where
  "config_Rest ic cfg =
     (let cfg1 = (if ic_WorkDir ic \<noteq> []
                  then set_Config (\<lambda>c. c\<lparr>cfg_WorkingDir := ic_WorkDir ic\<rparr>) cfg else cfg);
          cfg2 = (if ic_Environment ic \<noteq> []
                  then set_Config (\<lambda>c. c\<lparr>cfg_Env := sort (map env_entry (ic_Environment ic))\<rparr>) cfg1
                  else set_Config (\<lambda>c. c\<lparr>cfg_Env := default_Env\<rparr>) cfg1)
      in if RunAs (ic_Accounts ic) \<noteq> []
         then set_Config (\<lambda>c. c\<lparr>cfg_User := RunAs (ic_Accounts ic)\<rparr>) cfg2 else cfg2)"

definition synthesize_config ::
  "lib \<Rightarrow> image_configuration \<Rightarrow> int \<Rightarrow> architecture \<Rightarrow> config_file \<Rightarrow> error + config_file" where
  "synthesize_config l ic created arch cfg0 =
     (let platform = ToOCIPlatform l arch;
          cfg = set_Config (\<lambda>c. c\<lparr>cfg_Labels := []\<rparr>)
                  (cfg0\<lparr>cf_Author := ''github.com/chainguard-dev/apko'',
                        cf_Architecture := plat_Architecture platform,
                        cf_Variant := plat_Variant platform,
                        cf_Created := created\<rparr>)\<lparr>cf_OS := ''linux''\<rparr>
      in case config_Entrypoint l ic cfg of
           Inl err \<Rightarrow> Inl err
         | Inr cfg1 \<Rightarrow>
             (case config_Cmd l ic cfg1 of
                Inl err \<Rightarrow> Inl err
              | Inr cfg2 \<Rightarrow> Inr (config_Rest ic cfg2)))"

subsection \<open>attachSBOM\<close>

text \<open>
  \<^verbatim>\<open>os.ReadFile\<close>: the bytes of the file, or an error when the path cannot be read.
\<close>

definition os_ReadFile :: "world \<Rightarrow> string \<Rightarrow> error + string" where
  "os_ReadFile w path =
     (case files w path of
        None \<Rightarrow> Inl (Error (''open '' @ path @ '': no such file or directory''))
      | Some bytes \<Rightarrow> Inr bytes)"

text \<open>
  The switch on \<^verbatim>\<open>sbomFormats[0]\<close>: the media type and the file name of a supported
  format, \<open>None\<close> for the default branch.
\<close>

definition sbom_format :: "string \<Rightarrow> string \<Rightarrow> (media_type \<times> string) option" where
  "sbom_format fmt archName =
     (if fmt = ''spdx'' then Some (SPDXJSONMediaType, ''sbom-'' @ archName @ ''.spdx.json'')
      else if fmt = ''cyclonedx'' then Some (CycloneDXJSONMediaType, ''sbom-'' @ archName @ ''.cdx'')
      else if fmt = ''idb'' then Some (''application/vnd.apko.installed-db'', ''sbom-'' @ archName @ ''.idb'')
      else None)"

definition attach_file :: "lib \<Rightarrow> signed_entity \<Rightarrow> oci_file \<Rightarrow> error + signed_entity" where
  "attach_file l si f =
     (case si of
        SignedImage i \<Rightarrow>
          (case AttachFileToImage l i ''sbom'' f of
             Inl aterr \<Rightarrow> Inl (Wrap ''attaching file to image'' aterr)
           | Inr i' \<Rightarrow> Inr (SignedImage i'))
      | SignedImageIndex ii \<Rightarrow>
          (case AttachFileToImageIndex l ii ''sbom'' f of
             Inl aterr \<Rightarrow> Inl (Wrap ''attaching file to image'' aterr)
           | Inr ii' \<Rightarrow> Inr (SignedImageIndex ii'))
      | SignedUnknown \<Rightarrow> Inl (Error ''unable to cast signed signedentity as image or index''))"

definition attachSBOM ::
  "lib \<Rightarrow> signed_entity \<Rightarrow> string \<Rightarrow> string list \<Rightarrow> architecture \<Rightarrow> world
     \<Rightarrow> (error + signed_entity) \<times> world" where
  "attachSBOM l si sbomPath sbomFormats arch w =
     (case sbomFormats of
        [] \<Rightarrow> (Inr si, emit (Log DebugLevel ''Not building sboms, no formats requested'') w)
      | fmt # others \<Rightarrow>
          (let archName = (if ToAPK l arch = [] then ''index'' else ToAPK l arch)
           in case sbom_format fmt archName of
                None \<Rightarrow> (Inl (Error (''unsupported SBOM format: '' @ fmt)), w)
              | Some (mt, file) \<Rightarrow>
                  (let path = filepath_Join l sbomPath file;
                       w1 = (if others \<noteq> []
                             then emit (Log WarnLevel
                                    (''multiple SBOM formats requested, uploading SBOM with media type: '' @ mt)) w
                             else w)
                   in case os_ReadFile w1 path of
                        Inl err \<Rightarrow> (Inl (Wrap ''reading sbom'' err), w1)
                      | Inr sbom \<Rightarrow>
                          (case static_NewFile l sbom mt of
                             Inl err \<Rightarrow> (Inl err, w1)
                           | Inr f \<Rightarrow> (attach_file l si f, w1)))))"

subsection \<open>buildImageFromLayerWithMediaType, the whole function\<close>

definition apko_history :: "int \<Rightarrow> history" where
  "apko_history created =
     \<lparr>hist_Author = ''apko'', hist_Comment = ''This is an apko single-layer image'',
      hist_CreatedBy = ''apko'', hist_Created = created\<rparr>"

text \<open>Lines 103 to 108: the base image.\<close>

definition base_image :: "lib \<Rightarrow> media_type \<Rightarrow> image" where
  "base_image l mediaType =
     (if mediaType = OCILayer
      then mutate_ConfigMediaType (mutate_MediaType (empty_Image l) OCIManifestSchema1) OCIConfigJSON
      else empty_Image l)"

text \<open>
  Lines 109 to 199, once the layer and its two hashes are there. The type assertion
  \<^verbatim>\<open>ent.(oci.SignedImage)\<close> of line 199 panics on anything but an image.
\<close>

definition build_from_layer ::
  "lib \<Rightarrow> media_type \<Rightarrow> layer \<Rightarrow> image_configuration \<Rightarrow> int \<Rightarrow> architecture
     \<Rightarrow> string \<Rightarrow> string list \<Rightarrow> world \<Rightarrow> (error + image) \<times> world" where
  "build_from_layer l mediaType v1Layer ic created arch sbomPath sbomFormats w =
     (let imageType = humanReadableImageType mediaType
      in case mutate_Append l (base_image l mediaType)
                \<lparr>add_Layer = v1Layer, add_History = apko_history created\<rparr> of
           Inl err \<Rightarrow> (Inl (Wrap (''unable to append '' @ imageType @ '' layer to empty image'') err), w)
         | Inr appended \<Rightarrow>
             (case build_annotations ic w of
                (annotations, w1) \<Rightarrow>
                  (let v1Image = (if mediaType \<noteq> DockerLayer \<and> annotations \<noteq> []
                                  then mutate_Annotations appended annotations else appended)
                   in case image_ConfigFile l v1Image of
                        Inl err \<Rightarrow> (Inl (Wrap (''unable to get '' @ imageType @ '' config file'') err), w1)
                      | Inr cfg0 \<Rightarrow>
                          (case synthesize_config l ic created arch cfg0 of
                             Inl err \<Rightarrow> (Inl err, w1)
                           | Inr cfg \<Rightarrow>
                               (case mutate_ConfigFile l v1Image cfg of
                                  Inl err \<Rightarrow>
                                    (Inl (Wrap (''unable to update '' @ imageType @ '' config file'') err), w1)
                                | Inr configured \<Rightarrow>
                                    (case attachSBOM l (SignedImage configured) sbomPath sbomFormats arch w1 of
                                       (Inl err2, w2) \<Rightarrow> (Inl (Wrap ''attaching SBOM to image'' err2), w2)
                                     | (Inr (SignedImage si), w2) \<Rightarrow> (Inr si, w2)
                                     | (Inr _, w2) \<Rightarrow>
                                         (Inl (Error ''interface conversion: not an oci.SignedImage''), w2)))))))"

definition buildImageFromLayerWithMediaType ::
  "lib \<Rightarrow> media_type \<Rightarrow> string \<Rightarrow> image_configuration \<Rightarrow> int \<Rightarrow> architecture
     \<Rightarrow> string \<Rightarrow> string list \<Rightarrow> world \<Rightarrow> (error + image) \<times> world" where
  "buildImageFromLayerWithMediaType l mediaType layerTarGZ ic created arch sbomPath sbomFormats w =
     (let imageType = humanReadableImageType mediaType;
          w1 = emit (Log InfoLevel (''building '' @ imageType @ '' image from layer '' @
                 [CHR 0x27] @ layerTarGZ @ [CHR 0x27])) w
      in case v1tar_LayerFromFile l (files w1) layerTarGZ mediaType of
           Inl err \<Rightarrow> (Inl (Wrap (''failed to create '' @ imageType @ '' layer from tar.gz'') err), w1)
         | Inr v1Layer \<Rightarrow>
             (case layer_Digest l v1Layer of
                Inl err \<Rightarrow> (Inl (Wrap ''could not calculate layer digest'' err), w1)
              | Inr digest \<Rightarrow>
                  (case layer_DiffID l v1Layer of
                     Inl err \<Rightarrow> (Inl (Wrap ''could not calculate layer diff id'' err), w1)
                   | Inr diffid \<Rightarrow>
                       build_from_layer l mediaType v1Layer ic created arch sbomPath sbomFormats
                         (emit (Log InfoLevel (imageType @ '' layer diffID: '' @ hash_String diffid))
                           (emit (Log InfoLevel (imageType @ '' layer digest: '' @ hash_String digest)) w1)))))"

subsection \<open>Publishing one image\<close>

text \<open>
  \<^verbatim>\<open>retry.Do\<close> with no option: up to \<open>DefaultAttempts\<close> calls, until one succeeds;
  when none does, the errors of all of them. The pauses between attempts are not
  modelled.
\<close>

definition DefaultAttempts :: nat where
  "DefaultAttempts = 10"

fun retry_Do :: "nat \<Rightarrow> (world \<Rightarrow> error option \<times> world) \<Rightarrow> error list \<Rightarrow> world \<Rightarrow> error option \<times> world" where
  "retry_Do 0 f errs w = (Some (RetryError errs), w)"
| "retry_Do (Suc n) f errs w =
     (case f w of
        (None, w') \<Rightarrow> (None, w')
      | (Some err, w') \<Rightarrow> retry_Do n f (errs @ [err]) w')"

definition do_remote_Write :: "services \<Rightarrow> reference \<Rightarrow> artifact \<Rightarrow> world \<Rightarrow> error option \<times> world" where
  "do_remote_Write s ref a w = (remote_Write s w ref a, emit (RemoteWrite ref a) w)"

definition do_remote_WriteIndex :: "services \<Rightarrow> reference \<Rightarrow> index \<Rightarrow> world \<Rightarrow> error option \<times> world" where
  "do_remote_WriteIndex s ref idx w = (remote_WriteIndex s w ref idx, emit (RemoteWriteIndex ref idx) w)"

text \<open>
  The methods \<^verbatim>\<open>Digest()\<close> and \<^verbatim>\<open>Attachment(name)\<close> of a signed entity. The type
  assertion of line 535 panics on an entity that has no \<^verbatim>\<open>Digest()\<close>.
\<close>

definition entity_Digest :: "lib \<Rightarrow> signed_entity \<Rightarrow> error + hash" where
  "entity_Digest l se =
     (case se of
        SignedImage i \<Rightarrow> image_Digest l i
      | SignedImageIndex ii \<Rightarrow> index_Digest l ii
      | SignedUnknown \<Rightarrow> Inl (Error ''interface conversion: missing method Digest''))"

definition entity_Attachment :: "lib \<Rightarrow> signed_entity \<Rightarrow> string \<Rightarrow> error + oci_file" where
  "entity_Attachment l se n =
     (case se of
        SignedImage i \<Rightarrow> image_Attachment l i n
      | SignedImageIndex ii \<Rightarrow> index_Attachment l ii n
      | SignedUnknown \<Rightarrow> Inl (Error ''no attachment''))"

text \<open>
  writePeripherals returns a closure. \<open>write_peripheral\<close> is the closure of lines 534
  to 573; \<open>ociOpts\<close> is the repository of \<^verbatim>\<open>COSIGN_REPOSITORY\<close> when there is one.
\<close>

definition write_peripheral ::
  "lib \<Rightarrow> services \<Rightarrow> reference \<Rightarrow> string option \<Rightarrow> signed_entity \<Rightarrow> world \<Rightarrow> error option \<times> world" where
  "write_peripheral l s tag ociOpts se w =
     (case entity_Digest l se of
        Inl err \<Rightarrow> (Some err, w)
      | Inr h \<Rightarrow>
          (case SBOMTag l (repo_Digest (ref_Context tag) (hash_String h)) ociOpts of
             Inl err \<Rightarrow> (Some err, w)
           | Inr ref \<Rightarrow>
               (case entity_Attachment l se ''sbom'' of
                  Inl err \<Rightarrow> (None, w)
                | Inr f \<Rightarrow>
                    (case retry_Do DefaultAttempts (do_remote_Write s (TagRef ref) (FileArtifact f)) [] w of
                       (Some err, w1) \<Rightarrow> (Some (Wrap ''writing sbom'' err), w1)
                     | (None, w1) \<Rightarrow>
                         (None, emit (Log InfoLevel (''Published SBOM '' @ tag_Name ref)) w1)))))"

definition writePeripherals ::
  "lib \<Rightarrow> services \<Rightarrow> reference \<Rightarrow> world \<Rightarrow> signed_entity \<Rightarrow> world \<Rightarrow> error option \<times> world" where
  "writePeripherals l s tag w0 =
     (case GetEnvTargetRepository l (environ w0) of
        Inl err \<Rightarrow> (\<lambda>se w. (Some err, w))
      | Inr targetRepoOverride \<Rightarrow>
          write_peripheral l s tag
            (if targetRepoOverride \<noteq> [] then Some targetRepoOverride else None))"

text \<open>\<^verbatim>\<open>strings.Replace(resp, "\n", "\\n", -1)\<close>.\<close>

definition escape_newlines :: "string \<Rightarrow> string" where
  "escape_newlines resp = concat (map (\<lambda>c. if c = CHR 0x0A then [CHR 0x5C, CHR ''n''] else [c]) resp)"

definition publishTagFromImage ::
  "lib \<Rightarrow> services \<Rightarrow> image \<Rightarrow> string \<Rightarrow> hash \<Rightarrow> bool \<Rightarrow> world \<Rightarrow> (name_digest \<times> error option) \<times> world" where
  "publishTagFromImage l s img imageRef hash local w =
     (case name_ParseReference l imageRef of
        Inl err \<Rightarrow> ((zero_Digest, Some (Wrap ''unable to parse reference'' err)), w)
      | Inr imgRef \<Rightarrow>
          if local then
            (case name_NewTag l (LocalDomain @ ''/'' @ LocalRepo @ '':'' @ hash_Hex hash) of
               Inl err \<Rightarrow> ((zero_Digest, Some err), w)
             | Inr daemonWriteTag \<Rightarrow>
                 (let w1 = emit (Log InfoLevel (''saving OCI image locally: '' @ tag_Name daemonWriteTag)) w;
                      w2 = emit (DaemonWrite daemonWriteTag img) w1
                  in case daemon_Write s w1 daemonWriteTag img of
                       (resp, Some err) \<Rightarrow>
                         ((zero_Digest, Some (Wrap ''failed to save OCI image locally'' err)),
                          emit (Log ErrorLevel (''docker daemon error: '' @ escape_newlines resp)) w2)
                     | (resp, None) \<Rightarrow>
                         ((repo_Digest (ref_Context imgRef) (hash_String hash), None),
                          emit (Log DebugLevel (''docker daemon response: '' @ escape_newlines resp)) w2)))
          else
            (case writePeripherals l s imgRef w (SignedImage img) w of
               (Some err, w1) \<Rightarrow> ((zero_Digest, Some err), w1)
             | (None, w1) \<Rightarrow>
                 (case retry_Do DefaultAttempts (do_remote_Write s imgRef (ImageArtifact img)) [] w1 of
                    (Some err, w2) \<Rightarrow> ((zero_Digest, Some (Wrap ''failed to publish'' err)), w2)
                  | (None, w2) \<Rightarrow> ((repo_Digest (ref_Context imgRef) (hash_String hash), None), w2))))"

text \<open>
  The loop of lines 377 to 383 and the return of line 384. A Go result
  \<^verbatim>\<open>(name.Digest, oci.SignedImage, error)\<close> is a triple; the nil image is \<open>None\<close>.
\<close>

fun publish_tags ::
  "lib \<Rightarrow> services \<Rightarrow> image \<Rightarrow> hash \<Rightarrow> bool \<Rightarrow> string list \<Rightarrow> name_digest \<Rightarrow> world
     \<Rightarrow> (name_digest \<times> image option \<times> error option) \<times> world" where
  "publish_tags l s v1Image h local [] digest w = ((digest, Some v1Image, None), w)"
| "publish_tags l s v1Image h local (tag # tags) digest w =
     (case publishTagFromImage l s v1Image tag h local
             (emit (Log InfoLevel (''publishing image tag '' @ tag)) w) of
        ((d, Some err), w1) \<Rightarrow> ((zero_Digest, None, Some err), w1)
      | ((d, None), w1) \<Rightarrow> publish_tags l s v1Image h local tags d w1)"

definition publishImageFromLayerWithMediaType ::
  "lib \<Rightarrow> services \<Rightarrow> media_type \<Rightarrow> string \<Rightarrow> image_configuration \<Rightarrow> int \<Rightarrow> architecture
     \<Rightarrow> string \<Rightarrow> string list \<Rightarrow> bool \<Rightarrow> string list \<Rightarrow> world
     \<Rightarrow> (name_digest \<times> image option \<times> error option) \<times> world" where
  "publishImageFromLayerWithMediaType l s mediaType layerTarGZ ic created arch sbomPath sbomFormats local tags w =
     (case buildImageFromLayerWithMediaType l mediaType layerTarGZ ic created arch sbomPath sbomFormats w of
        (Inl err, w1) \<Rightarrow> ((zero_Digest, None, Some err), w1)
      | (Inr v1Image, w1) \<Rightarrow>
          (case image_Digest l v1Image of
             Inl err \<Rightarrow> ((zero_Digest, None, Some (Wrap ''failed to compute digest'' err)), w1)
           | Inr h \<Rightarrow> publish_tags l s v1Image h local tags zero_Digest w1))"

definition PublishImageFromLayer where
  "PublishImageFromLayer l s = publishImageFromLayerWithMediaType l s OCILayer"

definition PublishDockerImageFromLayer where
  "PublishDockerImageFromLayer l s = publishImageFromLayerWithMediaType l s DockerLayer"

subsection \<open>Publishing an index\<close>

text \<open>
  \<^verbatim>\<open>empty.Index\<close>, \<^verbatim>\<open>mutate.IndexMediaType\<close> and \<^verbatim>\<open>ocimutate.AppendManifests\<close>:
  the index holds its members with their descriptors, in the order they were appended.
  \<^verbatim>\<open>signed.ImageIndex\<close> changes nothing that the model holds.
\<close>

definition empty_Index :: index where
  "empty_Index = \<lparr>idx_MediaType = OCIImageIndex, idx_Manifests = [], idx_Attachments = []\<rparr>"

definition mutate_IndexMediaType :: "index \<Rightarrow> media_type \<Rightarrow> index" where
  "mutate_IndexMediaType idx mt = idx\<lparr>idx_MediaType := mt\<rparr>"

definition AppendManifests :: "index \<Rightarrow> index_addendum \<Rightarrow> index" where
  "AppendManifests idx a = idx\<lparr>idx_Manifests := idx_Manifests idx @ [a]\<rparr>"

text \<open>
  Lines 397 to 403. The keys of the map \<open>imgs\<close>, in the order of one \<^verbatim>\<open>range\<close>, are
  sorted by their string forms. \<^verbatim>\<open>sort.Slice\<close> is not stable; the keys of a map are
  distinct and an architecture is its string, so no two elements compare equal and
  the sorted slice is the one \<open>sort_key\<close> gives.
\<close>

definition sorted_archs :: "(architecture \<times> image) list \<Rightarrow> architecture list" where
  "sorted_archs imgs = sort_key arch_String (map fst imgs)"

text \<open>
  The loop of lines 404 to 430. \<^verbatim>\<open>imgs[arch]\<close> of a key that the map does not have
  is the nil image, on which \<^verbatim>\<open>img.MediaType()\<close> panics.
\<close>

fun append_archs :: "lib \<Rightarrow> (architecture \<times> image) list \<Rightarrow> architecture list \<Rightarrow> index \<Rightarrow> error + index" where
  "append_archs l imgs [] idx = Inr idx"
| "append_archs l imgs (arch # archs) idx =
     (case map_of imgs arch of
        None \<Rightarrow> Inl (Error ''invalid memory address or nil pointer dereference'')
      | Some img \<Rightarrow>
          (case image_MediaType l img of
             Inl err \<Rightarrow> Inl (Wrap ''failed to get mediatype'' err)
           | Inr mt \<Rightarrow>
               (case image_Digest l img of
                  Inl err \<Rightarrow> Inl (Wrap ''failed to compute digest'' err)
                | Inr h \<Rightarrow>
                    (case image_Size l img of
                       Inl err \<Rightarrow> Inl (Wrap ''failed to compute size'' err)
                     | Inr sz \<Rightarrow>
                         append_archs l imgs archs
                           (AppendManifests idx
                              \<lparr>ia_Add = img,
                               ia_Descriptor =
                                 \<lparr>desc_MediaType = mt, desc_Digest = h, desc_Size = sz,
                                  desc_Platform = Some (ToOCIPlatform l arch)\<rparr>\<rparr>)))))"

text \<open>
  \<^verbatim>\<open>walk.SignedEntity\<close> of cosign calls the function on the index and then on each of
  its members, and stops at the first error.
\<close>

fun walk_each :: "(signed_entity \<Rightarrow> world \<Rightarrow> error option \<times> world) \<Rightarrow> signed_entity list \<Rightarrow> world \<Rightarrow> error option \<times> world" where
  "walk_each fn [] w = (None, w)"
| "walk_each fn (se # ses) w =
     (case fn se w of
        (Some err, w1) \<Rightarrow> (Some err, w1)
      | (None, w1) \<Rightarrow> walk_each fn ses w1)"

definition walk_SignedEntity ::
  "lib \<Rightarrow> index \<Rightarrow> (signed_entity \<Rightarrow> world \<Rightarrow> error option \<times> world) \<Rightarrow> world \<Rightarrow> error option \<times> world" where
  "walk_SignedEntity l idx fn w =
     (case fn (SignedImageIndex idx) w of
        (Some err, w1) \<Rightarrow> (Some err, w1)
      | (None, w1) \<Rightarrow>
          (case index_IndexManifest l idx of
             Inl err \<Rightarrow> (Some err, w1)
           | Inr im \<Rightarrow> walk_each fn (map (\<lambda>a. SignedImage (ia_Add a)) (idx_Manifests idx)) w1))"

definition publishTagFromIndex ::
  "lib \<Rightarrow> services \<Rightarrow> index \<Rightarrow> string \<Rightarrow> hash \<Rightarrow> world \<Rightarrow> (name_digest \<times> error option) \<times> world" where
  "publishTagFromIndex l s idx imageRef hash w =
     (case name_ParseReference l imageRef of
        Inl err \<Rightarrow> ((zero_Digest, Some (Wrap ''unable to parse reference'' err)), w)
      | Inr ref \<Rightarrow>
          (case walk_SignedEntity l idx (writePeripherals l s ref w) w of
             (Some err, w1) \<Rightarrow> ((zero_Digest, Some err), w1)
           | (None, w1) \<Rightarrow>
               (case retry_Do DefaultAttempts (do_remote_WriteIndex s ref idx) [] w1 of
                  (Some err, w2) \<Rightarrow> ((zero_Digest, Some (Wrap ''failed to publish'' err)), w2)
                | (None, w2) \<Rightarrow> ((repo_Digest (ref_Context ref) (hash_String hash), None), w2))))"

text \<open>The loop of lines 491 to 497 and the return of line 499.\<close>

fun publish_index_tags ::
  "lib \<Rightarrow> services \<Rightarrow> index \<Rightarrow> hash \<Rightarrow> string list \<Rightarrow> name_digest \<Rightarrow> world
     \<Rightarrow> (name_digest \<times> index option \<times> error option) \<times> world" where
  "publish_index_tags l s idx h [] digest w = ((digest, Some idx, None), w)"
| "publish_index_tags l s idx h (tag # tags) digest w =
     (case publishTagFromIndex l s idx tag h
             (emit (Log InfoLevel (''publishing index tag '' @ tag)) w) of
        ((d, Some err), w1) \<Rightarrow> ((zero_Digest, None, Some err), w1)
      | ((d, None), w1) \<Rightarrow> publish_index_tags l s idx h tags d w1)"

text \<open>The loop of lines 468 to 477: the local image gets every requested tag.\<close>

fun tag_local :: "lib \<Rightarrow> services \<Rightarrow> name_tag \<Rightarrow> string list \<Rightarrow> world \<Rightarrow> error option \<times> world" where
  "tag_local l s localSrcTag [] w = (None, w)"
| "tag_local l s localSrcTag (tag # tags) w =
     (case name_NewTag l tag of
        Inl err \<Rightarrow> (Some err, w)
      | Inr localDstTag \<Rightarrow>
          (let w1 = emit (Log InfoLevel (''tagging local image '' @ tag_Name localSrcTag @ '' as '' @
                      tag_Name localDstTag)) w
           in case daemon_Tag s w1 localSrcTag localDstTag of
                Some err \<Rightarrow> (Some err, emit (DaemonTag localSrcTag localDstTag) w1)
              | None \<Rightarrow> tag_local l s localSrcTag tags (emit (DaemonTag localSrcTag localDstTag) w1)))"

text \<open>
  Lines 451 to 460: the first manifest of the native platform, if any. Every path
  through the body of the loop for that manifest returns.
\<close>

definition is_native :: "string \<Rightarrow> string \<Rightarrow> descriptor \<Rightarrow> bool" where
  "is_native goos goarch manifest =
     (case desc_Platform manifest of
        None \<Rightarrow> False
      | Some p \<Rightarrow> plat_OS p = goos \<and> plat_Architecture p = goarch)"

text \<open>Lines 461 to 482, for the native manifest.\<close>

definition promote_local ::
  "lib \<Rightarrow> services \<Rightarrow> index \<Rightarrow> string \<Rightarrow> string \<Rightarrow> descriptor \<Rightarrow> string list \<Rightarrow> world
     \<Rightarrow> (name_digest \<times> index option \<times> error option) \<times> world" where
  "promote_local l s idx goos goarch manifest tags w =
     (let localSrcTagStr = LocalDomain @ ''/'' @ LocalRepo @ '':'' @ hash_Hex (desc_Digest manifest);
          w1 = emit (Log InfoLevel (''using native single-arch image for local tags: '' @ localSrcTagStr @
                 '' ('' @ goos @ ''/'' @ goarch @ '')'')) w
      in case name_NewTag l localSrcTagStr of
           Inl err \<Rightarrow> ((zero_Digest, None, Some err), w1)
         | Inr localSrcTag \<Rightarrow>
             (case tag_local l s localSrcTag tags w1 of
                (Some err, w2) \<Rightarrow> ((zero_Digest, None, Some err), w2)
              | (None, w2) \<Rightarrow>
                  (case name_NewDigest l (tag_Name localSrcTag @ ''@'' @ hash_String (desc_Digest manifest)) of
                     Inl err \<Rightarrow> ((zero_Digest, None, Some err), w2)
                   | Inr digest \<Rightarrow> ((digest, Some idx, None), w2))))"

text \<open>Lines 486 to 499.\<close>

definition publish_index_remote ::
  "lib \<Rightarrow> services \<Rightarrow> index \<Rightarrow> string list \<Rightarrow> world
     \<Rightarrow> (name_digest \<times> index option \<times> error option) \<times> world" where
  "publish_index_remote l s idx tags w =
     (case index_Digest l idx of
        Inl err \<Rightarrow> ((zero_Digest, None, Some err), w)
      | Inr h \<Rightarrow> publish_index_tags l s idx h tags zero_Digest w)"

text \<open>
  publishIndexWithMediaType. The second parameter of the Go function is the blank
  identifier \<^verbatim>\<open>_ types.ImageConfiguration\<close>.
\<close>

definition publishIndexWithMediaType ::
  "lib \<Rightarrow> services \<Rightarrow> media_type \<Rightarrow> image_configuration \<Rightarrow> (architecture \<times> image) list
     \<Rightarrow> bool \<Rightarrow> string list \<Rightarrow> world \<Rightarrow> (name_digest \<times> index option \<times> error option) \<times> world" where
  "publishIndexWithMediaType l s mediaType ic imgs local tags w =
     (case append_archs l imgs (sorted_archs imgs) (mutate_IndexMediaType empty_Index mediaType) of
        Inl err \<Rightarrow> ((zero_Digest, None, Some err), w)
      | Inr idx \<Rightarrow>
          if local then
            (case index_IndexManifest l idx of
               Inl err \<Rightarrow> ((zero_Digest, None, Some err), w)
             | Inr im \<Rightarrow>
                 (let goos = (if environ w ''GOOS'' = [] then ''linux'' else environ w ''GOOS'');
                      goarch = (if environ w ''GOARCH'' = [] then ''amd64'' else environ w ''GOARCH'')
                  in case find (is_native goos goarch) im of
                       Some manifest \<Rightarrow> promote_local l s idx goos goarch manifest tags w
                     | None \<Rightarrow> publish_index_remote l s idx tags w))
          else publish_index_remote l s idx tags w)"

definition PublishIndex where
  "PublishIndex l s ic imgs local tags w =
     publishIndexWithMediaType l s OCIImageIndex ic imgs local tags w"

definition PublishDockerIndex where
  "PublishDockerIndex l s ic imgs local tags w =
     publishIndexWithMediaType l s DockerManifestList ic imgs local tags w"

subsection \<open>A small instance of the libraries\<close>

text \<open>
  The theorems below hold for every \<open>lib\<close> and every \<open>services\<close>. To run the
  definitions on concrete inputs, \<open>demo_lib\<close> and \<open>demo_services\<close> give each library
  call a simple behaviour: hashes are stand-ins (the hex string is the content),
  \<open>demo_split\<close> splits at blanks outside double quotes and fails on a quote that is
  not closed, references are split at their last separator, and the registry
  \<open>down.example\<close> refuses every write.
\<close>

definition demo_hash :: "string \<Rightarrow> hash" where
  "demo_hash s = \<lparr>hash_Algorithm = ''sha256'', hash_Hex = s\<rparr>"

fun demo_words :: "string \<Rightarrow> string \<Rightarrow> bool \<Rightarrow> string list option" where
  "demo_words [] cur quoted =
     (if quoted then None else Some (if cur = [] then [] else [cur]))"
| "demo_words (c # cs) cur quoted =
     (if c = CHR 0x22 then demo_words cs cur (\<not> quoted)
      else if c = CHR '' '' \<and> \<not> quoted then
        (case demo_words cs [] False of
           None \<Rightarrow> None
         | Some ws \<Rightarrow> Some (if cur = [] then ws else cur # ws))
      else demo_words cs (cur @ [c]) quoted)"

definition demo_split :: "string \<Rightarrow> error + string list" where
  "demo_split s =
     (case demo_words s [] False of
        None \<Rightarrow> Inl (Error ''EOF found when expecting closing quote'')
      | Some ws \<Rightarrow> Inr ws)"

definition demo_empty_config :: config_file where
  "demo_empty_config =
     \<lparr>cf_Author = [], cf_Architecture = [], cf_Variant = [], cf_Created = 0, cf_OS = [],
      cf_Config = \<lparr>cfg_Labels = [], cfg_Entrypoint = [], cfg_Cmd = [], cfg_WorkingDir = [],
                   cfg_Env = [], cfg_User = []\<rparr>,
      cf_History = [], cf_DiffIDs = []\<rparr>"

definition demo_empty_image :: image where
  "demo_empty_image =
     \<lparr>img_MediaType = ''application/vnd.docker.distribution.manifest.v2+json'',
      img_ConfigMediaType = ''application/vnd.docker.container.image.v1+json'',
      img_Layers = [], img_Annotations = Map.empty, img_ConfigFile = demo_empty_config,
      img_Attachments = []\<rparr>"

definition demo_append :: "image \<Rightarrow> addendum \<Rightarrow> error + image" where
  "demo_append img a =
     Inr (img\<lparr>img_Layers := img_Layers img @ [add_Layer a],
              img_ConfigFile := (img_ConfigFile img)
                \<lparr>cf_History := cf_History (img_ConfigFile img) @ [add_History a],
                 cf_DiffIDs := cf_DiffIDs (img_ConfigFile img) @ [demo_hash (rev (layer_Content (add_Layer a)))]\<rparr>\<rparr>)"

definition demo_layer_from_file :: "(string \<rightharpoonup> string) \<Rightarrow> string \<Rightarrow> media_type \<Rightarrow> error + layer" where
  "demo_layer_from_file fs path mt =
     (case fs path of
        None \<Rightarrow> Inl (Error ''no such file or directory'')
      | Some bytes \<Rightarrow> Inr \<lparr>layer_MediaType = mt, layer_Content = bytes\<rparr>)"

definition demo_attachment :: "(string \<times> oci_file) list \<Rightarrow> string \<Rightarrow> error + oci_file" where
  "demo_attachment atts n =
     (case map_of atts n of None \<Rightarrow> Inl (Error ''no such attachment'') | Some f \<Rightarrow> Inr f)"

definition demo_new_tag :: "string \<Rightarrow> error + name_tag" where
  "demo_new_tag s =
     (if s = [] \<or> CHR '' '' \<in> set s then Inl (Error ''could not parse reference'')
      else case strings_Cut s (CHR '':'') of
             (repo, tg, ok) \<Rightarrow>
               Inr \<lparr>tag_Repository = repo, tag_TagStr = (if ok then tg else ''latest'')\<rparr>)"

definition demo_new_digest :: "string \<Rightarrow> error + name_digest" where
  "demo_new_digest s =
     (case strings_Cut s (CHR ''@'') of
        (repo, d, ok) \<Rightarrow>
          if ok then Inr \<lparr>dig_Repository = repo, dig_DigestStr = d\<rparr>
          else Inl (Error ''a digest must contain exactly one @ separator''))"

definition demo_parse_reference :: "string \<Rightarrow> error + reference" where
  "demo_parse_reference s =
     (if CHR ''@'' \<in> set s then map_sum id DigestRef (demo_new_digest s)
      else map_sum id TagRef (demo_new_tag s))"

definition demo_image_hash :: "image \<Rightarrow> hash" where
  "demo_image_hash img = demo_hash (concat (map layer_Content (img_Layers img)))"

definition demo_lib :: lib where
  "demo_lib =
     \<lparr>v1tar_LayerFromFile = demo_layer_from_file,
      layer_Digest = (\<lambda>ly. Inr (demo_hash (layer_Content ly))),
      layer_DiffID = (\<lambda>ly. Inr (demo_hash (rev (layer_Content ly)))),
      empty_Image = demo_empty_image,
      mutate_Append = demo_append,
      image_ConfigFile = (\<lambda>img. Inr (img_ConfigFile img)),
      mutate_ConfigFile = (\<lambda>img cfg. Inr (img\<lparr>img_ConfigFile := cfg\<rparr>)),
      shlex_Split = demo_split,
      ToOCIPlatform = (\<lambda>a. \<lparr>plat_OS = ''linux'', plat_Architecture = arch_String a, plat_Variant = []\<rparr>),
      ToAPK = (\<lambda>a. if arch_String a = ''amd64'' then ''x86_64''
                    else if arch_String a = ''arm64'' then ''aarch64'' else arch_String a),
      filepath_Join = (\<lambda>dir file. dir @ ''/'' @ file),
      static_NewFile = (\<lambda>bytes mt. Inr \<lparr>file_Payload = bytes, file_LayerMediaType = mt\<rparr>),
      AttachFileToImage = (\<lambda>i n f. Inr (i\<lparr>img_Attachments := AList.update n f (img_Attachments i)\<rparr>)),
      AttachFileToImageIndex = (\<lambda>ii n f. Inr (ii\<lparr>idx_Attachments := AList.update n f (idx_Attachments ii)\<rparr>)),
      image_Digest = (\<lambda>img. Inr (demo_image_hash img)),
      image_Size = (\<lambda>img. Inr (int (length (concat (map layer_Content (img_Layers img)))))),
      image_MediaType = (\<lambda>img. Inr (img_MediaType img)),
      image_Attachment = (\<lambda>img. demo_attachment (img_Attachments img)),
      index_Digest = (\<lambda>idx. Inr (demo_hash (concat (map (\<lambda>a. hash_Hex (desc_Digest (ia_Descriptor a))) (idx_Manifests idx))))),
      index_IndexManifest = (\<lambda>idx. Inr (map ia_Descriptor (idx_Manifests idx))),
      index_Attachment = (\<lambda>idx. demo_attachment (idx_Attachments idx)),
      name_ParseReference = demo_parse_reference,
      name_NewTag = demo_new_tag,
      name_NewDigest = demo_new_digest,
      GetEnvTargetRepository = (\<lambda>env. Inr (env ''COSIGN_REPOSITORY'')),
      SBOMTag = (\<lambda>d repo. Inr \<lparr>tag_Repository = (case repo of None \<Rightarrow> dig_Repository d | Some r \<Rightarrow> r),
                                tag_TagStr = map (\<lambda>c. if c = CHR '':'' then CHR ''-'' else c) (dig_DigestStr d) @ ''.sbom''\<rparr>)\<rparr>"

definition demo_remote_down :: "reference \<Rightarrow> error option" where
  "demo_remote_down ref =
     (if take 12 (ref_Context ref) = ''down.example'' then Some (Error ''connection refused'') else None)"

definition demo_services :: services where
  "demo_services =
     \<lparr>daemon_Write = (\<lambda>w t img. (''Loaded image: '' @ tag_Name t, None)),
      daemon_Tag = (\<lambda>w src dst. None),
      remote_Write = (\<lambda>w ref a. demo_remote_down ref),
      remote_WriteIndex = (\<lambda>w ref idx. demo_remote_down ref)\<rparr>"

text \<open>
  A world with a layer file and an SBOM file, and a caller's annotation map at address
  0 of the heap; a configuration with that map and a VCS URL; the same configuration
  with its environment in the other order.
\<close>

definition demo_world :: world where
  "demo_world =
     \<lparr>files = [''layer.tar.gz'' \<mapsto> ''0a1b2c'', ''sboms/sbom-x86_64.spdx.json'' \<mapsto> ''{}''],
      environ = (\<lambda>v. []),
      heap = (\<lambda>a. if a = 0 then [(''team'', ''infra'')] else []),
      trace = []\<rparr>"

definition demo_ic :: image_configuration where
  "demo_ic =
     \<lparr>ic_Annotations = Some 0,
      ic_VCSUrl = ''https://example.com/repo@abc123'',
      ic_Entrypoint = \<lparr>ShellFragment = [], Command = ''/usr/bin/app --serve''\<rparr>,
      ic_Cmd = [],
      ic_WorkDir = [],
      ic_Environment = [(''B'', ''2''), (''A'', ''1'')],
      ic_Accounts = \<lparr>RunAs = []\<rparr>\<rparr>"

definition demo_arch :: architecture where
  "demo_arch = Architecture ''amd64''"

definition demo_cfg :: config_file where
  "demo_cfg =
     \<lparr>cf_Author = ''github.com/chainguard-dev/apko'', cf_Architecture = ''amd64'', cf_Variant = [],
      cf_Created = 7, cf_OS = ''linux'',
      cf_Config = \<lparr>cfg_Labels = [], cfg_Entrypoint = [''/usr/bin/app'', ''--serve''], cfg_Cmd = [],
                   cfg_WorkingDir = [], cfg_Env = [''A=1'', ''B=2''], cfg_User = []\<rparr>,
      cf_History = [], cf_DiffIDs = []\<rparr>"

text \<open>The same configuration with a shell fragment as well, and with a quote left open in \<open>Cmd\<close>.\<close>

definition demo_ic_fragment :: image_configuration where
  "demo_ic_fragment =
     demo_ic\<lparr>ic_Entrypoint := \<lparr>ShellFragment = ''exec app'', Command = ''/usr/bin/app --serve''\<rparr>,
             ic_Environment := []\<rparr>"

definition demo_ic_open_quote :: image_configuration where
  "demo_ic_open_quote = demo_ic\<lparr>ic_Cmd := ''echo '' @ [CHR 0x22] @ ''hello''\<rparr>"

definition demo_tags :: "string list" where
  "demo_tags = [''ok.example/app:v1'', ''down.example/app:v1'', ''ok.example/app:v2'']"

definition demo_image :: "string \<Rightarrow> image" where
  "demo_image content =
     demo_empty_image\<lparr>img_Layers := [\<lparr>layer_MediaType = OCILayer, layer_Content = content\<rparr>]\<rparr>"

definition demo_imgs :: "(architecture \<times> image) list" where
  "demo_imgs = [(Architecture ''arm64'', demo_image ''aa64''), (Architecture ''amd64'', demo_image ''ad64'')]"

text \<open>The image that the small instance builds from \<open>demo_ic\<close> when no SBOM is requested.\<close>

definition demo_built :: image where
  "demo_built =
     \<lparr>img_MediaType = OCIManifestSchema1, img_ConfigMediaType = OCIConfigJSON,
      img_Layers = [\<lparr>layer_MediaType = OCILayer, layer_Content = ''0a1b2c''\<rparr>],
      img_Annotations =
        map_of [(''team'', ''infra''),
                (''org.opencontainers.image.source'', ''https://example.com/repo''),
                (''org.opencontainers.image.revision'', ''abc123'')],
      img_ConfigFile = demo_cfg\<lparr>cf_History := [apko_history 7], cf_DiffIDs := [demo_hash ''c2b1a0'']\<rparr>,
      img_Attachments = []\<rparr>"

text \<open>The index that the small instance assembles from \<open>demo_imgs\<close>.\<close>

definition demo_entry :: "string \<Rightarrow> string \<Rightarrow> index_addendum" where
  "demo_entry archName content =
     \<lparr>ia_Add = demo_image content,
      ia_Descriptor =
        \<lparr>desc_MediaType = ''application/vnd.docker.distribution.manifest.v2+json'',
         desc_Digest = demo_hash content, desc_Size = int (length content),
         desc_Platform = Some \<lparr>plat_OS = ''linux'', plat_Architecture = archName, plat_Variant = []\<rparr>\<rparr>\<rparr>"

definition demo_index :: index where
  "demo_index =
     \<lparr>idx_MediaType = OCIImageIndex,
      idx_Manifests = [demo_entry ''amd64'' ''ad64'', demo_entry ''arm64'' ''aa64''],
      idx_Attachments = []\<rparr>"

subsection \<open>Notions used to state the properties\<close>

text \<open>The APK name of lines 245 to 248.\<close>

definition apk_name :: "lib \<Rightarrow> architecture \<Rightarrow> string" where
  "apk_name l arch = (if ToAPK l arch = [] then ''index'' else ToAPK l arch)"

text \<open>The tag of the local store for a hash.\<close>

definition local_tag :: "hash \<Rightarrow> string" where
  "local_tag h = ''apko.local/cache:'' @ hash_Hex h"

text \<open>The writes to the local store and to the registry that a trace holds, oldest first.\<close>

fun daemon_writes :: "event list \<Rightarrow> (name_tag \<times> image) list" where
  "daemon_writes [] = []"
| "daemon_writes (DaemonWrite t i # es) = (t, i) # daemon_writes es"
| "daemon_writes (e # es) = daemon_writes es"

fun remote_targets :: "event list \<Rightarrow> string list" where
  "remote_targets [] = []"
| "remote_targets (RemoteWrite ref a # es) = ref_String ref # remote_targets es"
| "remote_targets (RemoteWriteIndex ref idx # es) = ref_String ref # remote_targets es"
| "remote_targets (e # es) = remote_targets es"

text \<open>
  An entry of an index describes the member of the map \<open>imgs\<close> for an architecture:
  it holds that image, and its descriptor holds what the image's \<^verbatim>\<open>MediaType()\<close>,
  \<^verbatim>\<open>Digest()\<close> and \<^verbatim>\<open>Size()\<close> return and the OCI platform of the architecture.
\<close>

definition describes :: "lib \<Rightarrow> (architecture \<times> image) list \<Rightarrow> architecture \<Rightarrow> index_addendum \<Rightarrow> bool" where
  "describes l imgs arch e =
     (map_of imgs arch = Some (ia_Add e) \<and>
      image_MediaType l (ia_Add e) = Inr (desc_MediaType (ia_Descriptor e)) \<and>
      image_Digest l (ia_Add e) = Inr (desc_Digest (ia_Descriptor e)) \<and>
      image_Size l (ia_Add e) = Inr (desc_Size (ia_Descriptor e)) \<and>
      desc_Platform (ia_Descriptor e) = Some (ToOCIPlatform l arch))"

section \<open>Properties\<close>

lemmas case_congs =
  if_cong sum.case_cong signed_entity.case_cong prod.case_cong list.case_cong option.case_cong

lemmas demo_defs = demo_lib_def demo_ic_def demo_arch_def demo_world_def demo_empty_image_def
  demo_empty_config_def demo_layer_from_file_def demo_append_def demo_hash_def demo_split_def
  demo_image_hash_def demo_services_def demo_remote_down_def demo_parse_reference_def
  demo_new_tag_def demo_new_digest_def demo_attachment_def demo_tags_def demo_cfg_def
  demo_ic_fragment_def demo_ic_open_quote_def demo_image_def demo_imgs_def

lemmas build_defs = buildImageFromLayerWithMediaType_def build_from_layer_def base_image_def
  build_annotations_def vcs_annotations_def strings_Cut_def synthesize_config_def
  config_Entrypoint_def config_Cmd_def config_Rest_def set_Config_def env_entry_def
  attachSBOM_def attach_file_def sbom_format_def os_ReadFile_def emit_def apko_history_def
  humanReadableImageType_def mutate_Annotations_def mutate_MediaType_def
  mutate_ConfigMediaType_def hash_String_def OCILayer_def DockerLayer_def
  OCIManifestSchema1_def OCIConfigJSON_def SPDXJSONMediaType_def

lemmas publish_defs = publishImageFromLayerWithMediaType_def publishTagFromImage_def
  writePeripherals_def write_peripheral_def entity_Digest_def entity_Attachment_def
  do_remote_Write_def DefaultAttempts_def repo_Digest_def zero_Digest_def tag_Name_def
  LocalDomain_def LocalRepo_def escape_newlines_def local_tag_def

lemmas index_defs = publishIndexWithMediaType_def sorted_archs_def mutate_IndexMediaType_def
  empty_Index_def AppendManifests_def publish_index_remote_def publishTagFromIndex_def
  walk_SignedEntity_def do_remote_WriteIndex_def promote_local_def is_native_def
  OCIImageIndex_def

subsection \<open>What a call reads and writes\<close>

lemma emit_reads [simp]:
  "files (emit e w) = files w" "heap (emit e w) = heap w" "environ (emit e w) = environ w"
  by (simp_all add: emit_def)

lemma daemon_writes_append: "daemon_writes (xs @ ys) = daemon_writes xs @ daemon_writes ys"
  by (induction xs rule: daemon_writes.induct) simp_all

lemma daemon_writes_emit_Log [simp]:
  "daemon_writes (trace (emit (Log lv m) w)) = daemon_writes (trace w)"
  by (simp add: emit_def daemon_writes_append)

lemma daemon_writes_emit_DaemonWrite [simp]:
  "daemon_writes (trace (emit (DaemonWrite t i) w)) = daemon_writes (trace w) @ [(t, i)]"
  by (simp add: emit_def daemon_writes_append)

lemma attachSBOM_reads:
  assumes "files w' = files w"
  shows "fst (attachSBOM l si p fmts arch w') = fst (attachSBOM l si p fmts arch w)"
  using assms
  by (auto simp: attachSBOM_def os_ReadFile_def Let_def split: list.splits option.splits sum.splits)

lemma attachSBOM_writes:
  "files (snd (attachSBOM l si p fmts arch w)) = files w \<and>
   heap (snd (attachSBOM l si p fmts arch w)) = heap w \<and>
   daemon_writes (trace (snd (attachSBOM l si p fmts arch w))) = daemon_writes (trace w)"
  by (auto simp: attachSBOM_def Let_def split: list.splits option.splits sum.splits)

lemma build_annotations_writes:
  "files (snd (build_annotations ic w)) = files w \<and> trace (snd (build_annotations ic w)) = trace w"
  by (simp add: build_annotations_def Let_def split: option.splits)

lemma build_annotations_emit:
  "fst (build_annotations ic (emit e w)) = fst (build_annotations ic w)"
  "heap (snd (build_annotations ic (emit e w))) = heap (snd (build_annotations ic w))"
  by (simp_all add: build_annotations_def Let_def split: option.splits)

lemma vcs_annotations_idem: "vcs_annotations ic (vcs_annotations ic m) = vcs_annotations ic m"
  by (simp add: vcs_annotations_def update_triv update_conv' split: prod.splits)

lemma build_annotations_again:
  assumes "heap w' = heap w \<or> heap w' = heap (snd (build_annotations ic w))"
  shows "fst (build_annotations ic w') = fst (build_annotations ic w)"
  using assms
  by (auto simp: build_annotations_def Let_def vcs_annotations_idem split: option.splits)

lemma build_from_layer_reads:
  assumes "files w' = files w" and "fst (build_annotations ic w') = fst (build_annotations ic w)"
  shows "fst (build_from_layer l mt ly ic created arch p fmts w') =
         fst (build_from_layer l mt ly ic created arch p fmts w)"
proof -
  have "files (snd (build_annotations ic w')) = files (snd (build_annotations ic w))"
    by (simp add: build_annotations_writes assms(1))
  then have s: "fst (attachSBOM l si p fmts arch (snd (build_annotations ic w'))) =
                fst (attachSBOM l si p fmts arch (snd (build_annotations ic w)))" for si
    by (rule attachSBOM_reads)
  show ?thesis
    unfolding build_from_layer_def Let_def
    by (simp add: prod.case_eq_if s assms(2) split: sum.split signed_entity.split)
qed

lemma build_from_layer_writes:
  "files (snd (build_from_layer l mt ly ic created arch p fmts w)) = files w \<and>
   (heap (snd (build_from_layer l mt ly ic created arch p fmts w)) = heap w \<or>
    heap (snd (build_from_layer l mt ly ic created arch p fmts w)) = heap (snd (build_annotations ic w))) \<and>
   daemon_writes (trace (snd (build_from_layer l mt ly ic created arch p fmts w))) = daemon_writes (trace w)"
  unfolding build_from_layer_def Let_def
  by (simp add: prod.case_eq_if attachSBOM_writes build_annotations_writes
      split: sum.split signed_entity.split)

lemma build_reads:
  assumes "files w' = files w" and "fst (build_annotations ic w') = fst (build_annotations ic w)"
  shows "fst (buildImageFromLayerWithMediaType l mt layer ic created arch p fmts w') =
         fst (buildImageFromLayerWithMediaType l mt layer ic created arch p fmts w)"
proof -
  have "fst (build_from_layer l mt ly ic created arch p fmts (emit a (emit b (emit c w')))) =
        fst (build_from_layer l mt ly ic created arch p fmts (emit a (emit b (emit c w))))" for ly a b c
    by (rule build_from_layer_reads) (simp_all add: assms build_annotations_emit)
  then show ?thesis
    unfolding buildImageFromLayerWithMediaType_def Let_def
    by (simp add: assms(1) split: sum.split)
qed

lemma build_writes:
  "files (snd (buildImageFromLayerWithMediaType l mt layer ic created arch p fmts w)) = files w \<and>
   (heap (snd (buildImageFromLayerWithMediaType l mt layer ic created arch p fmts w)) = heap w \<or>
    heap (snd (buildImageFromLayerWithMediaType l mt layer ic created arch p fmts w)) =
      heap (snd (build_annotations ic w))) \<and>
   daemon_writes (trace (snd (buildImageFromLayerWithMediaType l mt layer ic created arch p fmts w))) =
     daemon_writes (trace w)"
proof -
  have "files (snd (build_from_layer l mt ly ic created arch p fmts
                 (emit (Log la a) (emit (Log lb b) (emit (Log lc c) w))))) = files w \<and>
   (heap (snd (build_from_layer l mt ly ic created arch p fmts
                 (emit (Log la a) (emit (Log lb b) (emit (Log lc c) w))))) = heap w \<or>
    heap (snd (build_from_layer l mt ly ic created arch p fmts
                 (emit (Log la a) (emit (Log lb b) (emit (Log lc c) w))))) =
      heap (snd (build_annotations ic w))) \<and>
   daemon_writes (trace (snd (build_from_layer l mt ly ic created arch p fmts
                 (emit (Log la a) (emit (Log lb b) (emit (Log lc c) w)))))) = daemon_writes (trace w)"
    for ly la a lb b lc c
    using build_from_layer_writes [of l mt ly ic created arch p fmts
            "emit (Log la a) (emit (Log lb b) (emit (Log lc c) w))"]
    by (simp add: build_annotations_emit)
  then show ?thesis
    unfolding buildImageFromLayerWithMediaType_def Let_def
    by (simp split: sum.split)
qed

subsection \<open>The order of a map does not matter\<close>

lemma sort_mset_cong: "mset xs = mset ys \<Longrightarrow> sort xs = sort ys"
  by (rule properties_for_sort) simp_all

lemma vcs_annotations_env: "vcs_annotations (ic\<lparr>ic_Environment := env'\<rparr>) = vcs_annotations ic"
  by (rule ext) (simp add: vcs_annotations_def)

lemma build_annotations_env: "build_annotations (ic\<lparr>ic_Environment := env'\<rparr>) = build_annotations ic"
  by (rule ext) (simp add: build_annotations_def vcs_annotations_env Let_def cong: case_congs)

lemma config_Rest_env:
  assumes "mset env' = mset (ic_Environment ic)"
  shows "config_Rest (ic\<lparr>ic_Environment := env'\<rparr>) = config_Rest ic"
proof -
  have "sort (map env_entry env') = sort (map env_entry (ic_Environment ic))"
    by (rule sort_mset_cong) (simp add: assms)
  moreover have "env' = [] \<longleftrightarrow> ic_Environment ic = []"
    using assms by (metis mset_zero_iff)
  ultimately show ?thesis
    by (intro ext) (simp add: config_Rest_def Let_def)
qed

lemma synthesize_config_env:
  assumes "mset env' = mset (ic_Environment ic)"
  shows "synthesize_config l (ic\<lparr>ic_Environment := env'\<rparr>) = synthesize_config l ic"
  by (intro ext) (simp add: synthesize_config_def config_Entrypoint_def config_Cmd_def
      config_Rest_env [OF assms] Let_def cong: case_congs)

lemma build_from_layer_env:
  assumes "mset env' = mset (ic_Environment ic)"
  shows "build_from_layer l mt ly (ic\<lparr>ic_Environment := env'\<rparr>) = build_from_layer l mt ly ic"
  by (intro ext) (simp add: build_from_layer_def build_annotations_env
      synthesize_config_env [OF assms] Let_def cong: case_congs)

lemma build_env:
  assumes "mset env' = mset (ic_Environment ic)"
  shows "buildImageFromLayerWithMediaType l mt layer (ic\<lparr>ic_Environment := env'\<rparr>) =
         buildImageFromLayerWithMediaType l mt layer ic"
  by (intro ext) (simp add: buildImageFromLayerWithMediaType_def build_from_layer_env [OF assms]
      Let_def cong: case_congs)

subsection \<open>Runs of the definitions on the small instance\<close>

lemma demo_synth: "synthesize_config demo_lib demo_ic 7 demo_arch demo_empty_config = Inr demo_cfg"
  by (simp add: demo_defs build_defs Let_def)

lemma demo_build_digest:
  "map_sum id (image_Digest demo_lib)
     (fst (buildImageFromLayerWithMediaType demo_lib OCILayer ''layer.tar.gz'' demo_ic 7
             demo_arch ''sboms'' [''spdx'', ''idb''] demo_world)) =
   Inr (Inr (demo_hash ''0a1b2c''))"
  by (simp add: demo_defs build_defs Let_def)

subsection \<open>Determinism of assembly\<close>

text \<open>
  C1. Two calls of buildImageFromLayerWithMediaType with the same layer file, configuration,
  creation time, architecture, media type, SBOM path and SBOM formats return the same
  result, hence images with the same digest. The second call runs in any world whose
  files and heap are those the first call left (it sees the annotation map as the first
  call changed it), and \<^verbatim>\<open>range\<close> may visit the environment in another order.
\<close>

theorem build_deterministic:
  assumes "mset env' = mset (ic_Environment ic)"
      and "files w2 = files (snd (buildImageFromLayerWithMediaType l mt layer ic created arch p fmts w))"
      and "heap w2 = heap (snd (buildImageFromLayerWithMediaType l mt layer ic created arch p fmts w))"
  shows "fst (buildImageFromLayerWithMediaType l mt layer (ic\<lparr>ic_Environment := env'\<rparr>) created arch p fmts w2) =
         fst (buildImageFromLayerWithMediaType l mt layer ic created arch p fmts w) \<and>
         map_sum id (image_Digest l)
           (fst (buildImageFromLayerWithMediaType l mt layer (ic\<lparr>ic_Environment := env'\<rparr>) created arch p fmts w2)) =
         map_sum id (image_Digest l)
           (fst (buildImageFromLayerWithMediaType l mt layer ic created arch p fmts w))"
proof -
  have f: "files w2 = files w"
    using assms(2) build_writes [of l mt layer ic created arch p fmts w] by simp
  have "heap w2 = heap w \<or> heap w2 = heap (snd (build_annotations ic w))"
    using assms(3) build_writes [of l mt layer ic created arch p fmts w] by simp
  then have "fst (build_annotations ic w2) = fst (build_annotations ic w)"
    by (rule build_annotations_again)
  with f have "fst (buildImageFromLayerWithMediaType l mt layer ic created arch p fmts w2) =
               fst (buildImageFromLayerWithMediaType l mt layer ic created arch p fmts w)"
    by (rule build_reads)
  then show ?thesis
    by (simp add: build_env [OF assms(1)])
qed

theorem build_deterministic_witness:
  "mset [(''A'', ''1''), (''B'', ''2'')] = mset (ic_Environment demo_ic) \<and>
   fst (buildImageFromLayerWithMediaType demo_lib OCILayer ''layer.tar.gz''
          (demo_ic\<lparr>ic_Environment := [(''A'', ''1''), (''B'', ''2'')]\<rparr>) 7 demo_arch ''sboms'' [''spdx'', ''idb'']
          (snd (buildImageFromLayerWithMediaType demo_lib OCILayer ''layer.tar.gz'' demo_ic 7
                  demo_arch ''sboms'' [''spdx'', ''idb''] demo_world))) =
   fst (buildImageFromLayerWithMediaType demo_lib OCILayer ''layer.tar.gz'' demo_ic 7
          demo_arch ''sboms'' [''spdx'', ''idb''] demo_world) \<and>
   map_sum id (image_Digest demo_lib)
     (fst (buildImageFromLayerWithMediaType demo_lib OCILayer ''layer.tar.gz''
          (demo_ic\<lparr>ic_Environment := [(''A'', ''1''), (''B'', ''2'')]\<rparr>) 7 demo_arch ''sboms'' [''spdx'', ''idb'']
          (snd (buildImageFromLayerWithMediaType demo_lib OCILayer ''layer.tar.gz'' demo_ic 7
                  demo_arch ''sboms'' [''spdx'', ''idb''] demo_world)))) =
   Inr (Inr (demo_hash ''0a1b2c''))"
proof -
  have m: "mset [(''A'', ''1''), (''B'', ''2'')] = mset (ic_Environment demo_ic)"
    by (simp add: demo_ic_def)
  show ?thesis
    using m build_deterministic [OF m refl refl, of demo_lib OCILayer "''layer.tar.gz''" 7 demo_arch
        "''sboms''" "[''spdx'', ''idb'']" demo_world] demo_build_digest
    by simp
qed

subsection \<open>The synthesized config\<close>

text \<open>
  C4. When the configuration has at least one environment variable, the \<open>Env\<close> of the
  synthesized config is the list of their \<^verbatim>\<open>KEY=VALUE\<close> renderings in ascending
  bytewise order, and the synthesized config is the same for every order in which the
  map is visited; when it has none, \<open>Env\<close> is the list of the two defaults, \<^verbatim>\<open>PATH\<close>
  and \<^verbatim>\<open>SSL_CERT_FILE\<close>.
\<close>

theorem env_synthesis:
  assumes "synthesize_config l ic created arch cfg0 = Inr cfg"
  shows "(ic_Environment ic \<noteq> [] \<longrightarrow>
            cfg_Env (cf_Config cfg) = sort (map (\<lambda>(k, v). k @ ''='' @ v) (ic_Environment ic)) \<and>
            sorted (cfg_Env (cf_Config cfg)) \<and>
            mset (cfg_Env (cf_Config cfg)) = mset (map (\<lambda>(k, v). k @ ''='' @ v) (ic_Environment ic)) \<and>
            (\<forall>env'. mset env' = mset (ic_Environment ic) \<longrightarrow>
               synthesize_config l (ic\<lparr>ic_Environment := env'\<rparr>) created arch cfg0 = Inr cfg)) \<and>
         (ic_Environment ic = [] \<longrightarrow>
            cfg_Env (cf_Config cfg) =
              [''PATH=/usr/local/sbin:/usr/local/bin:/usr/sbin:/usr/bin:/sbin:/bin'',
               ''SSL_CERT_FILE=/etc/ssl/certs/ca-certificates.crt''])"
proof -
  have e: "env_entry = (\<lambda>(k, v). k @ ''='' @ v)"
    by (rule ext) (simp add: env_entry_def split: prod.split)
  have "cfg_Env (cf_Config cfg) =
          (if ic_Environment ic = [] then default_Env else sort (map env_entry (ic_Environment ic)))"
    using assms
    by (auto simp: synthesize_config_def config_Rest_def config_Cmd_def config_Entrypoint_def
        set_Config_def Let_def split: sum.splits if_splits)
  then show ?thesis
    using assms by (simp add: e default_Env_def synthesize_config_env)
qed

theorem env_synthesis_witness:
  "synthesize_config demo_lib demo_ic 7 demo_arch demo_empty_config = Inr demo_cfg \<and>
   ic_Environment demo_ic = [(''B'', ''2''), (''A'', ''1'')] \<and>
   cfg_Env (cf_Config demo_cfg) = [''A=1'', ''B=2''] \<and>
   synthesize_config demo_lib (demo_ic\<lparr>ic_Environment := [(''A'', ''1''), (''B'', ''2'')]\<rparr>) 7 demo_arch
     demo_empty_config = Inr demo_cfg"
proof -
  have m: "mset [(''A'', ''1''), (''B'', ''2'')] = mset (ic_Environment demo_ic)"
    by (simp add: demo_ic_def)
  have n: "ic_Environment demo_ic \<noteq> []"
    by (simp add: demo_ic_def)
  from env_synthesis [OF demo_synth] n m
  have "synthesize_config demo_lib (demo_ic\<lparr>ic_Environment := [(''A'', ''1''), (''B'', ''2'')]\<rparr>) 7 demo_arch
          demo_empty_config = Inr demo_cfg"
    by blast
  then show ?thesis
    by (simp add: demo_synth) (simp add: demo_ic_def demo_cfg_def)
qed

text \<open>
  C5. When the shell fragment is not empty the entrypoint of the synthesized config is
  \<^verbatim>\<open>["/bin/sh", "-c", fragment]\<close>, whatever the command string is; otherwise, when the
  command string is not empty, it is the list \<^verbatim>\<open>shlex.Split\<close> returns for it;
  otherwise it is the entrypoint of the base config, which is left as it is, so it is
  empty when the base image has none.
\<close>

theorem entrypoint_precedence:
  assumes "synthesize_config l ic created arch cfg0 = Inr cfg"
  shows "(ShellFragment (ic_Entrypoint ic) \<noteq> [] \<longrightarrow>
            cfg_Entrypoint (cf_Config cfg) = [''/bin/sh'', ''-c'', ShellFragment (ic_Entrypoint ic)]) \<and>
         (ShellFragment (ic_Entrypoint ic) = [] \<and> Command (ic_Entrypoint ic) \<noteq> [] \<longrightarrow>
            shlex_Split l (Command (ic_Entrypoint ic)) = Inr (cfg_Entrypoint (cf_Config cfg))) \<and>
         (ShellFragment (ic_Entrypoint ic) = [] \<and> Command (ic_Entrypoint ic) = [] \<longrightarrow>
            cfg_Entrypoint (cf_Config cfg) = cfg_Entrypoint (cf_Config cfg0) \<and>
            (cfg_Entrypoint (cf_Config cfg0) = [] \<longrightarrow> cfg_Entrypoint (cf_Config cfg) = []))"
  using assms
  by (auto simp: synthesize_config_def config_Rest_def config_Cmd_def config_Entrypoint_def
      set_Config_def Let_def split: sum.splits if_splits)

lemma demo_synth_fragment:
  "synthesize_config demo_lib demo_ic_fragment 7 demo_arch demo_empty_config =
     Inr (demo_cfg\<lparr>cf_Config := (cf_Config demo_cfg)
            \<lparr>cfg_Entrypoint := [''/bin/sh'', ''-c'', ''exec app''],
             cfg_Env := [''PATH=/usr/local/sbin:/usr/local/bin:/usr/sbin:/usr/bin:/sbin:/bin'',
                         ''SSL_CERT_FILE=/etc/ssl/certs/ca-certificates.crt'']\<rparr>\<rparr>)"
  by (simp add: demo_defs build_defs default_Env_def Let_def)

lemma demo_synth_plain:
  "synthesize_config demo_lib
     (demo_ic\<lparr>ic_Entrypoint := \<lparr>ShellFragment = [], Command = []\<rparr>\<rparr>) 7 demo_arch demo_empty_config =
     Inr (demo_cfg\<lparr>cf_Config := (cf_Config demo_cfg)\<lparr>cfg_Entrypoint := []\<rparr>\<rparr>)"
  by (simp add: demo_defs build_defs Let_def)

theorem entrypoint_precedence_witness:
  "ShellFragment (ic_Entrypoint demo_ic_fragment) = ''exec app'' \<and>
   Command (ic_Entrypoint demo_ic_fragment) = ''/usr/bin/app --serve'' \<and>
   (\<exists>cfg. synthesize_config demo_lib demo_ic_fragment 7 demo_arch demo_empty_config = Inr cfg \<and>
      cfg_Entrypoint (cf_Config cfg) = [''/bin/sh'', ''-c'', ''exec app'']) \<and>
   (\<exists>cfg. synthesize_config demo_lib demo_ic 7 demo_arch demo_empty_config = Inr cfg \<and>
      cfg_Entrypoint (cf_Config cfg) = [''/usr/bin/app'', ''--serve'']) \<and>
   (\<exists>cfg. synthesize_config demo_lib
             (demo_ic\<lparr>ic_Entrypoint := \<lparr>ShellFragment = [], Command = []\<rparr>\<rparr>) 7 demo_arch
             demo_empty_config = Inr cfg \<and>
      cfg_Entrypoint (cf_Config cfg) = [])"
proof -
  have a: "ShellFragment (ic_Entrypoint demo_ic_fragment) = ''exec app''"
          "Command (ic_Entrypoint demo_ic_fragment) = ''/usr/bin/app --serve''"
    by (simp_all add: demo_ic_fragment_def)
  have b: "ShellFragment (ic_Entrypoint demo_ic) = []" "Command (ic_Entrypoint demo_ic) = ''/usr/bin/app --serve''"
          "shlex_Split demo_lib ''/usr/bin/app --serve'' = Inr [''/usr/bin/app'', ''--serve'']"
    by (simp_all add: demo_ic_def demo_lib_def demo_split_def)
  have c: "cfg_Entrypoint (cf_Config demo_empty_config) = []"
    by (simp add: demo_empty_config_def)
  show ?thesis
    using entrypoint_precedence [OF demo_synth_fragment] entrypoint_precedence [OF demo_synth]
      entrypoint_precedence [OF demo_synth_plain] a b c
    by (simp add: demo_synth_fragment demo_synth demo_synth_plain)
qed

subsection \<open>A cmd string that cannot be split\<close>

lemma synth_cmd_fails:
  assumes "ic_Cmd ic \<noteq> []" and "shlex_Split l (ic_Cmd ic) = Inl e"
  shows "synthesize_config l ic created arch cfg0 \<noteq> Inr cfg"
  using assms
  by (auto simp: synthesize_config_def config_Cmd_def Let_def split: sum.splits)

lemma build_from_layer_cmd_fails:
  assumes "ic_Cmd ic \<noteq> []" and "shlex_Split l (ic_Cmd ic) = Inl e"
  shows "\<exists>err. fst (build_from_layer l mt ly ic created arch p fmts w) = Inl err"
proof -
  obtain anns w1 where ba: "build_annotations ic w = (anns, w1)"
    by (cases "build_annotations ic w")
  show ?thesis
    unfolding build_from_layer_def Let_def ba
    by (auto simp: synth_cmd_fails [OF assms] split: sum.splits prod.splits signed_entity.splits)
qed

lemma build_cmd_fails:
  assumes "ic_Cmd ic \<noteq> []" and "shlex_Split l (ic_Cmd ic) = Inl e"
  shows "\<exists>err. fst (buildImageFromLayerWithMediaType l mt layer ic created arch p fmts w) = Inl err"
  using build_from_layer_cmd_fails [OF assms]
  unfolding buildImageFromLayerWithMediaType_def Let_def
  by (auto split: sum.splits)

lemma attach_file_digest_irrelevant:
  "attach_file (l\<lparr>image_Digest := d\<rparr>) = attach_file l"
  by (rule ext)+ (simp add: attach_file_def Let_def cong: case_congs)

lemma attachSBOM_digest_irrelevant:
  "attachSBOM (l\<lparr>image_Digest := d\<rparr>) = attachSBOM l"
  by (rule ext)+ (simp add: attachSBOM_def attach_file_digest_irrelevant Let_def cong: case_congs)

lemma synth_digest_irrelevant:
  "synthesize_config (l\<lparr>image_Digest := d\<rparr>) = synthesize_config l"
  by (rule ext)+ (simp add: synthesize_config_def config_Entrypoint_def config_Cmd_def Let_def
      cong: case_congs)

lemma build_from_layer_digest_irrelevant:
  "build_from_layer (l\<lparr>image_Digest := d\<rparr>) = build_from_layer l"
  by (rule ext)+ (simp add: build_from_layer_def base_image_def
      attachSBOM_digest_irrelevant synth_digest_irrelevant Let_def cong: case_congs)

lemma build_digest_irrelevant:
  "buildImageFromLayerWithMediaType (l\<lparr>image_Digest := d\<rparr>) = buildImageFromLayerWithMediaType l"
  by (rule ext)+ (simp add: buildImageFromLayerWithMediaType_def build_from_layer_digest_irrelevant
      Let_def cong: case_congs)

text \<open>
  C8. When \<^verbatim>\<open>shlex.Split\<close> fails on the (non-empty) \<open>Cmd\<close> string of the
  configuration, buildImageFromLayerWithMediaType returns an error, and
  publishImageFromLayerWithMediaType returns that error with the zero digest and no
  image, in the world the build left, whatever \<^verbatim>\<open>Digest()\<close> of an image would
  return: the digest of an image plays no part in the outcome.
\<close>

theorem malformed_cmd_is_fatal:
  assumes "ic_Cmd ic \<noteq> []" and "shlex_Split l (ic_Cmd ic) = Inl e"
  shows "\<exists>err w'.
           buildImageFromLayerWithMediaType l mt layer ic created arch p fmts w = (Inl err, w') \<and>
           (\<forall>d. publishImageFromLayerWithMediaType (l\<lparr>image_Digest := d\<rparr>) s mt layer ic created arch
                   p fmts local tags w =
                 ((zero_Digest, None, Some err), w')) \<and>
           publishImageFromLayerWithMediaType l s mt layer ic created arch p fmts local tags w =
             ((zero_Digest, None, Some err), w')"
proof -
  obtain err where "fst (buildImageFromLayerWithMediaType l mt layer ic created arch p fmts w) = Inl err"
    using build_cmd_fails [OF assms] by blast
  then obtain w' where b: "buildImageFromLayerWithMediaType l mt layer ic created arch p fmts w = (Inl err, w')"
    by (cases "buildImageFromLayerWithMediaType l mt layer ic created arch p fmts w") simp
  have "publishImageFromLayerWithMediaType (l\<lparr>image_Digest := d\<rparr>) s mt layer ic created arch p fmts
          local tags w = ((zero_Digest, None, Some err), w')" for d
    by (simp add: publishImageFromLayerWithMediaType_def build_digest_irrelevant b)
  moreover have "publishImageFromLayerWithMediaType l s mt layer ic created arch p fmts
          local tags w = ((zero_Digest, None, Some err), w')"
    by (simp add: publishImageFromLayerWithMediaType_def b)
  ultimately show ?thesis using b by blast
qed

lemma demo_open_quote:
  "ic_Cmd demo_ic_open_quote \<noteq> []"
  "shlex_Split demo_lib (ic_Cmd demo_ic_open_quote) = Inl (Error ''EOF found when expecting closing quote'')"
  by (simp_all add: demo_defs)

lemma demo_open_quote_build:
  "fst (buildImageFromLayerWithMediaType demo_lib OCILayer ''layer.tar.gz'' demo_ic_open_quote 7
          demo_arch ''sboms'' [] demo_world) =
   Inl (Wrap ''unable to parse cmd'' (Error ''EOF found when expecting closing quote''))"
  by (simp add: demo_defs build_defs Let_def)

theorem malformed_cmd_is_fatal_witness:
  "ic_Cmd demo_ic_open_quote \<noteq> [] \<and>
   shlex_Split demo_lib (ic_Cmd demo_ic_open_quote) = Inl (Error ''EOF found when expecting closing quote'') \<and>
   fst (publishImageFromLayerWithMediaType demo_lib demo_services OCILayer ''layer.tar.gz''
          demo_ic_open_quote 7 demo_arch ''sboms'' [] False demo_tags demo_world) =
     (zero_Digest, None,
      Some (Wrap ''unable to parse cmd'' (Error ''EOF found when expecting closing quote'')))"
proof -
  from malformed_cmd_is_fatal [OF demo_open_quote, of OCILayer "''layer.tar.gz''" 7 demo_arch
      "''sboms''" "[]" demo_world demo_services False demo_tags]
  obtain err w' where
    b: "buildImageFromLayerWithMediaType demo_lib OCILayer ''layer.tar.gz'' demo_ic_open_quote 7
          demo_arch ''sboms'' [] demo_world = (Inl err, w')"
    and p: "publishImageFromLayerWithMediaType demo_lib demo_services OCILayer ''layer.tar.gz''
          demo_ic_open_quote 7 demo_arch ''sboms'' [] False demo_tags demo_world =
            ((zero_Digest, None, Some err), w')"
    by blast
  from b demo_open_quote_build
  have "err = Wrap ''unable to parse cmd'' (Error ''EOF found when expecting closing quote'')"
    by simp
  with p show ?thesis
    by (simp add: demo_open_quote)
qed

subsection \<open>The annotation map of the caller\<close>

text \<open>
  C3. The claim that assembly leaves the caller's configuration as it was fails for the
  annotation map: line 114 copies the reference to the map, and lines 120 and 121 write
  the two VCS annotations into it. The run below starts with the caller's map
  \<^verbatim>\<open>{"team": "infra"}\<close> at address 0 and a VCS URL containing \<^verbatim>\<open>@\<close>; after the call
  the caller's map holds three entries.
\<close>

theorem annotations_map_is_written:
  "ic_Annotations demo_ic = Some 0 \<and>
   heap demo_world 0 = [(''team'', ''infra'')] \<and>
   heap (snd (buildImageFromLayerWithMediaType demo_lib OCILayer ''layer.tar.gz'' demo_ic 7
                demo_arch ''sboms'' [] demo_world)) 0 =
     [(''team'', ''infra''),
      (''org.opencontainers.image.source'', ''https://example.com/repo''),
      (''org.opencontainers.image.revision'', ''abc123'')]"
  by (simp add: demo_defs build_defs Let_def)

subsection \<open>The configuration argument of index publishing\<close>

text \<open>
  C10. PublishIndex, PublishDockerIndex and publishIndexWithMediaType return the same
  digest, index and error, and leave the same world, for any two configurations.
\<close>

theorem index_ignores_configuration:
  "PublishIndex l s ic imgs local tags w = PublishIndex l s ic' imgs local tags w \<and>
   PublishDockerIndex l s ic imgs local tags w = PublishDockerIndex l s ic' imgs local tags w \<and>
   publishIndexWithMediaType l s mt ic imgs local tags w =
     publishIndexWithMediaType l s mt ic' imgs local tags w"
  by (simp add: PublishIndex_def PublishDockerIndex_def publishIndexWithMediaType_def)

subsection \<open>Attaching an SBOM\<close>

lemma attach_file_fails:
  "isl (attach_file l si f) \<longleftrightarrow>
     (si = SignedUnknown \<or>
      (\<exists>i. si = SignedImage i \<and> isl (AttachFileToImage l i ''sbom'' f)) \<or>
      (\<exists>ii. si = SignedImageIndex ii \<and> isl (AttachFileToImageIndex l ii ''sbom'' f)))"
  by (auto simp: attach_file_def split: signed_entity.splits sum.splits)

lemma attach_file_succeeds:
  "attach_file l si f = Inr r \<longleftrightarrow>
     ((\<exists>i i'. si = SignedImage i \<and> AttachFileToImage l i ''sbom'' f = Inr i' \<and> r = SignedImage i') \<or>
      (\<exists>ii ii'. si = SignedImageIndex ii \<and> AttachFileToImageIndex l ii ''sbom'' f = Inr ii' \<and>
         r = SignedImageIndex ii'))"
  by (auto simp: attach_file_def split: signed_entity.splits sum.splits)

lemma sbom_format_None: "sbom_format fmt an = None \<longleftrightarrow> fmt \<notin> {''spdx'', ''cyclonedx'', ''idb''}"
  by (simp add: sbom_format_def)

lemma attachSBOM_first_only:
  "fst (attachSBOM l si p (fmt # others) arch w) = fst (attachSBOM l si p [fmt] arch w)"
  by (auto simp: attachSBOM_def os_ReadFile_def Let_def split: option.splits sum.splits)

lemma attachSBOM_fails:
  "isl (fst (attachSBOM l si p (fmt # others) arch w)) \<longleftrightarrow>
     (sbom_format fmt (apk_name l arch) = None \<or>
      (\<exists>mt file. sbom_format fmt (apk_name l arch) = Some (mt, file) \<and>
         (files w (filepath_Join l p file) = None \<or>
          (\<exists>bytes. files w (filepath_Join l p file) = Some bytes \<and>
             (isl (static_NewFile l bytes mt) \<or>
              (\<exists>f. static_NewFile l bytes mt = Inr f \<and> isl (attach_file l si f)))))))"
  by (auto simp: attachSBOM_def apk_name_def os_ReadFile_def Let_def
      split: option.splits sum.splits)

lemma attachSBOM_succeeds:
  assumes "fst (attachSBOM l si p (fmt # others) arch w) = Inr r"
  shows "\<exists>mt file bytes f. sbom_format fmt (apk_name l arch) = Some (mt, file) \<and>
           files w (filepath_Join l p file) = Some bytes \<and>
           static_NewFile l bytes mt = Inr f \<and> attach_file l si f = Inr r"
  using assms
  by (auto simp: attachSBOM_def apk_name_def os_ReadFile_def Let_def
      split: option.splits sum.splits if_splits)

lemma attachSBOM_trace:
  "trace (snd (attachSBOM l si p (fmt # others) arch w)) =
     trace w @ (case sbom_format fmt (apk_name l arch) of
                  None \<Rightarrow> []
                | Some (mt, file) \<Rightarrow>
                    if others = [] then []
                    else [Log WarnLevel
                            (''multiple SBOM formats requested, uploading SBOM with media type: '' @ mt)])"
  by (auto simp: attachSBOM_def apk_name_def os_ReadFile_def emit_def Let_def
      split: option.splits sum.splits)

text \<open>
  C7, as the code has it. With no requested format attachSBOM returns the artifact as
  it is and no error. With at least one, only the first format counts, and a warning
  is logged when more were requested and the first is a supported one. The call returns
  an error exactly when the first format is not one of \<^verbatim>\<open>spdx\<close>, \<^verbatim>\<open>cyclonedx\<close>,
  \<^verbatim>\<open>idb\<close>, or the SBOM file cannot be read, or \<^verbatim>\<open>static.NewFile\<close> fails, or the
  artifact is neither a signed image nor a signed index, or the attach call of the
  library fails. Otherwise the result is what the attach call of the library gives
  for the artifact, the name \<^verbatim>\<open>sbom\<close> and the file of the first format.
\<close>

theorem attachSBOM_policy:
  "attachSBOM l si p [] arch w =
     (Inr si, emit (Log DebugLevel ''Not building sboms, no formats requested'') w) \<and>
   fst (attachSBOM l si p (fmt # others) arch w) = fst (attachSBOM l si p [fmt] arch w) \<and>
   (isl (fst (attachSBOM l si p (fmt # others) arch w)) \<longleftrightarrow>
      (fmt \<notin> {''spdx'', ''cyclonedx'', ''idb''} \<or>
       (\<exists>mt file. sbom_format fmt (apk_name l arch) = Some (mt, file) \<and>
          (files w (filepath_Join l p file) = None \<or>
           (\<exists>bytes. files w (filepath_Join l p file) = Some bytes \<and>
              (isl (static_NewFile l bytes mt) \<or>
               (\<exists>f. static_NewFile l bytes mt = Inr f \<and>
                  (si = SignedUnknown \<or>
                   (\<exists>i. si = SignedImage i \<and> isl (AttachFileToImage l i ''sbom'' f)) \<or>
                   (\<exists>ii. si = SignedImageIndex ii \<and> isl (AttachFileToImageIndex l ii ''sbom'' f)))))))))) \<and>
   (\<forall>r. fst (attachSBOM l si p (fmt # others) arch w) = Inr r \<longrightarrow>
      (\<exists>mt file bytes f.
         sbom_format fmt (apk_name l arch) = Some (mt, file) \<and>
         files w (filepath_Join l p file) = Some bytes \<and>
         static_NewFile l bytes mt = Inr f \<and>
         ((\<exists>i i'. si = SignedImage i \<and> AttachFileToImage l i ''sbom'' f = Inr i' \<and> r = SignedImage i') \<or>
          (\<exists>ii ii'. si = SignedImageIndex ii \<and> AttachFileToImageIndex l ii ''sbom'' f = Inr ii' \<and>
             r = SignedImageIndex ii')))) \<and>
   trace (snd (attachSBOM l si p (fmt # others) arch w)) =
     trace w @ (case sbom_format fmt (apk_name l arch) of
                  None \<Rightarrow> []
                | Some (mt, file) \<Rightarrow>
                    if others = [] then []
                    else [Log WarnLevel
                            (''multiple SBOM formats requested, uploading SBOM with media type: '' @ mt)])"
proof -
  have 1: "attachSBOM l si p [] arch w =
     (Inr si, emit (Log DebugLevel ''Not building sboms, no formats requested'') w)"
    by (simp add: attachSBOM_def)
  have 4: "\<exists>mt file bytes f.
         sbom_format fmt (apk_name l arch) = Some (mt, file) \<and>
         files w (filepath_Join l p file) = Some bytes \<and>
         static_NewFile l bytes mt = Inr f \<and>
         ((\<exists>i i'. si = SignedImage i \<and> AttachFileToImage l i ''sbom'' f = Inr i' \<and> r = SignedImage i') \<or>
          (\<exists>ii ii'. si = SignedImageIndex ii \<and> AttachFileToImageIndex l ii ''sbom'' f = Inr ii' \<and>
             r = SignedImageIndex ii'))"
    if "fst (attachSBOM l si p (fmt # others) arch w) = Inr r" for r
    using attachSBOM_succeeds [OF that] by (simp add: attach_file_succeeds)
  show ?thesis
    using 1 attachSBOM_first_only [of l si p fmt others arch w] 4
      attachSBOM_fails [of l si p fmt others arch w, unfolded attach_file_fails sbom_format_None]
      attachSBOM_trace [of l si p fmt others arch w]
    by blast
qed

lemma demo_attach:
  "fst (attachSBOM demo_lib (SignedImage demo_built) ''sboms'' [''spdx'', ''idb''] demo_arch demo_world) =
     Inr (SignedImage (demo_built\<lparr>img_Attachments :=
            [(''sbom'', \<lparr>file_Payload = ''{}'', file_LayerMediaType = ''spdx+json''\<rparr>)]\<rparr>))"
  by (simp add: demo_defs demo_built_def build_defs Let_def)

theorem attachSBOM_policy_witness:
  "fst (attachSBOM demo_lib (SignedImage demo_built) ''sboms'' [''spdx'', ''idb''] demo_arch demo_world) =
     Inr (SignedImage (demo_built\<lparr>img_Attachments :=
            [(''sbom'', \<lparr>file_Payload = ''{}'', file_LayerMediaType = ''spdx+json''\<rparr>)]\<rparr>)) \<and>
   (\<exists>mt file bytes f.
      sbom_format ''spdx'' (apk_name demo_lib demo_arch) = Some (mt, file) \<and>
      files demo_world (filepath_Join demo_lib ''sboms'' file) = Some bytes \<and>
      static_NewFile demo_lib bytes mt = Inr f \<and>
      AttachFileToImage demo_lib demo_built ''sbom'' f =
        Inr (demo_built\<lparr>img_Attachments :=
               [(''sbom'', \<lparr>file_Payload = ''{}'', file_LayerMediaType = ''spdx+json''\<rparr>)]\<rparr>)) \<and>
   trace (snd (attachSBOM demo_lib (SignedImage demo_built) ''sboms'' [''spdx'', ''idb''] demo_arch demo_world)) =
     [Log WarnLevel ''multiple SBOM formats requested, uploading SBOM with media type: spdx+json'']"
proof -
  have t: "trace (snd (attachSBOM demo_lib (SignedImage demo_built) ''sboms'' [''spdx'', ''idb''] demo_arch demo_world)) =
     [Log WarnLevel ''multiple SBOM formats requested, uploading SBOM with media type: spdx+json'']"
    by (simp add: demo_defs build_defs Let_def)
  from attachSBOM_policy [of demo_lib "SignedImage demo_built" "''sboms''" demo_arch demo_world
      "''spdx''" "[''idb'']"] demo_attach
  have "\<exists>mt file bytes f.
      sbom_format ''spdx'' (apk_name demo_lib demo_arch) = Some (mt, file) \<and>
      files demo_world (filepath_Join demo_lib ''sboms'' file) = Some bytes \<and>
      static_NewFile demo_lib bytes mt = Inr f \<and>
      AttachFileToImage demo_lib demo_built ''sbom'' f =
        Inr (demo_built\<lparr>img_Attachments :=
               [(''sbom'', \<lparr>file_Payload = ''{}'', file_LayerMediaType = ''spdx+json''\<rparr>)]\<rparr>)"
    by auto
  with demo_attach t show ?thesis by blast
qed

text \<open>
  The claim as the spec has it fails: for an artifact that is neither a signed image nor
  a signed index, the first format is supported and the SBOM file is read, and
  attachSBOM returns the error of line 282.
\<close>

theorem attachSBOM_error_for_other_entity:
  "''spdx'' \<in> {''spdx'', ''cyclonedx'', ''idb''} \<and>
   sbom_format ''spdx'' (apk_name demo_lib demo_arch) = Some (SPDXJSONMediaType, ''sbom-x86_64.spdx.json'') \<and>
   os_ReadFile demo_world (filepath_Join demo_lib ''sboms'' ''sbom-x86_64.spdx.json'') = Inr ''{}'' \<and>
   fst (attachSBOM demo_lib SignedUnknown ''sboms'' [''spdx''] demo_arch demo_world) =
     Inl (Error ''unable to cast signed signedentity as image or index'')"
  by (simp add: demo_defs build_defs apk_name_def Let_def)

subsection \<open>Publishing under several tags\<close>

lemma publish_tags_append:
  assumes "snd (snd (fst (publish_tags l s img h local ts d w))) = None"
  shows "publish_tags l s img h local (ts @ rest) d w =
         publish_tags l s img h local rest
           (fst (fst (publish_tags l s img h local ts d w)))
           (snd (publish_tags l s img h local ts d w))"
  using assms
  by (induction ts arbitrary: d w) (auto split: prod.splits option.splits)

text \<open>
  C2, as the code has it. The tags are published in the order given, each in the world
  the one before it left. The first tag whose publish fails ends the call: the call
  returns that error with the zero digest and no image, in the world that the failed
  publish left, whatever tags follow. When the publish of every tag succeeds, the call
  returns the digest that the last tag gave, and the image.
\<close>

theorem publish_stops_at_first_failure:
  assumes "fst (buildImageFromLayerWithMediaType l mt layer ic created arch p fmts w) = Inr img"
      and "image_Digest l img = Inr h"
      and "snd (snd (fst (publish_tags l s img h local ts zero_Digest
             (snd (buildImageFromLayerWithMediaType l mt layer ic created arch p fmts w))))) = None"
  shows "(\<forall>err.
            snd (fst (publishTagFromImage l s img t h local
              (emit (Log InfoLevel (''publishing image tag '' @ t))
                 (snd (publish_tags l s img h local ts zero_Digest
                    (snd (buildImageFromLayerWithMediaType l mt layer ic created arch p fmts w))))))) = Some err \<longrightarrow>
            publishImageFromLayerWithMediaType l s mt layer ic created arch p fmts local (ts @ t # rest) w =
              ((zero_Digest, None, Some err),
               snd (publishTagFromImage l s img t h local
                 (emit (Log InfoLevel (''publishing image tag '' @ t))
                    (snd (publish_tags l s img h local ts zero_Digest
                       (snd (buildImageFromLayerWithMediaType l mt layer ic created arch p fmts w)))))))) \<and>
         (snd (fst (publishTagFromImage l s img t h local
              (emit (Log InfoLevel (''publishing image tag '' @ t))
                 (snd (publish_tags l s img h local ts zero_Digest
                    (snd (buildImageFromLayerWithMediaType l mt layer ic created arch p fmts w))))))) = None \<longrightarrow>
            publishImageFromLayerWithMediaType l s mt layer ic created arch p fmts local (ts @ [t]) w =
              ((fst (fst (publishTagFromImage l s img t h local
                  (emit (Log InfoLevel (''publishing image tag '' @ t))
                     (snd (publish_tags l s img h local ts zero_Digest
                        (snd (buildImageFromLayerWithMediaType l mt layer ic created arch p fmts w))))))),
                Some img, None),
               snd (publishTagFromImage l s img t h local
                 (emit (Log InfoLevel (''publishing image tag '' @ t))
                    (snd (publish_tags l s img h local ts zero_Digest
                       (snd (buildImageFromLayerWithMediaType l mt layer ic created arch p fmts w))))))))"
proof -
  obtain wb where b: "buildImageFromLayerWithMediaType l mt layer ic created arch p fmts w = (Inr img, wb)"
    using assms(1) by (cases "buildImageFromLayerWithMediaType l mt layer ic created arch p fmts w") simp
  have a: "snd (snd (fst (publish_tags l s img h local ts zero_Digest wb))) = None"
    using assms(3) b by simp
  show ?thesis
    by (auto simp: publishImageFromLayerWithMediaType_def b assms(2) publish_tags_append [OF a]
        split: prod.splits option.splits)
qed

lemma demo_build_plain:
  "fst (buildImageFromLayerWithMediaType demo_lib OCILayer ''layer.tar.gz'' demo_ic 7 demo_arch
          ''sboms'' [] demo_world) = Inr demo_built"
  by (simp add: demo_defs demo_built_def build_defs Let_def)

lemma demo_built_digest: "image_Digest demo_lib demo_built = Inr (demo_hash ''0a1b2c'')"
  by (simp add: demo_defs demo_built_def)

theorem publish_stops_at_first_failure_witness:
  "fst (buildImageFromLayerWithMediaType demo_lib OCILayer ''layer.tar.gz'' demo_ic 7 demo_arch
          ''sboms'' [] demo_world) = Inr demo_built \<and>
   image_Digest demo_lib demo_built = Inr (demo_hash ''0a1b2c'') \<and>
   fst (publish_tags demo_lib demo_services demo_built (demo_hash ''0a1b2c'') False [''ok.example/app:v1'']
          zero_Digest
          (snd (buildImageFromLayerWithMediaType demo_lib OCILayer ''layer.tar.gz'' demo_ic 7 demo_arch
                  ''sboms'' [] demo_world))) =
     (repo_Digest ''ok.example/app'' ''sha256:0a1b2c'', Some demo_built, None) \<and>
   fst (publishImageFromLayerWithMediaType demo_lib demo_services OCILayer ''layer.tar.gz'' demo_ic 7
          demo_arch ''sboms'' [] False
          ([''ok.example/app:v1''] @ ''down.example/app:v1'' # [''ok.example/app:v2'']) demo_world) =
     (zero_Digest, None,
      Some (Wrap ''failed to publish'' (RetryError (replicate 10 (Error ''connection refused'')))))"
proof -
  let ?wb = "snd (buildImageFromLayerWithMediaType demo_lib OCILayer ''layer.tar.gz'' demo_ic 7 demo_arch
                  ''sboms'' [] demo_world)"
  have wb: "?wb = demo_world\<lparr>heap := (heap demo_world)(0 := vcs_annotations demo_ic (heap demo_world 0)),
                 trace := [Log InfoLevel (''building OCI image from layer '' @ [CHR 0x27] @ ''layer.tar.gz'' @ [CHR 0x27]),
                           Log InfoLevel ''OCI layer digest: sha256:0a1b2c'',
                           Log InfoLevel ''OCI layer diffID: sha256:c2b1a0'',
                           Log DebugLevel ''Not building sboms, no formats requested'']\<rparr>"
    by (simp add: demo_defs build_defs Let_def)
  have p: "fst (publish_tags demo_lib demo_services demo_built (demo_hash ''0a1b2c'') False
                 [''ok.example/app:v1''] zero_Digest ?wb) =
           (repo_Digest ''ok.example/app'' ''sha256:0a1b2c'', Some demo_built, None)"
    unfolding wb
    by (simp add: demo_defs demo_built_def publish_defs emit_def hash_String_def strings_Cut_def
        Let_def eval_nat_numeral)
  then have n: "snd (snd (fst (publish_tags demo_lib demo_services demo_built (demo_hash ''0a1b2c'') False
                 [''ok.example/app:v1''] zero_Digest ?wb))) = None"
    by simp
  have f: "snd (fst (publishTagFromImage demo_lib demo_services demo_built ''down.example/app:v1''
             (demo_hash ''0a1b2c'') False
             (emit (Log InfoLevel (''publishing image tag '' @ ''down.example/app:v1''))
                (snd (publish_tags demo_lib demo_services demo_built (demo_hash ''0a1b2c'') False
                   [''ok.example/app:v1''] zero_Digest ?wb))))) =
           Some (Wrap ''failed to publish'' (RetryError (replicate 10 (Error ''connection refused''))))"
    unfolding wb
    by (simp add: demo_defs demo_built_def publish_defs emit_def hash_String_def strings_Cut_def
        Let_def eval_nat_numeral)
  from publish_stops_at_first_failure [OF demo_build_plain demo_built_digest n,
      of "''down.example/app:v1''" "[''ok.example/app:v2'']"] f
  have "fst (publishImageFromLayerWithMediaType demo_lib demo_services OCILayer ''layer.tar.gz'' demo_ic 7
          demo_arch ''sboms'' [] False
          ([''ok.example/app:v1''] @ ''down.example/app:v1'' # [''ok.example/app:v2'']) demo_world) =
     (zero_Digest, None,
      Some (Wrap ''failed to publish'' (RetryError (replicate 10 (Error ''connection refused'')))))"
    by simp
  with demo_build_plain demo_built_digest p show ?thesis by blast
qed

text \<open>
  The claim as the spec has it fails. Three tags are requested; the registry of the
  second refuses the write. The first tag was published, yet the digest returned is
  the zero digest and not the one of the first tag, and the third tag is never
  written: the registry sees one write for the first tag and the ten attempts for
  the second.
\<close>

theorem publish_aborts_remaining_tags:
  "demo_tags = [''ok.example/app:v1'', ''down.example/app:v1'', ''ok.example/app:v2''] \<and>
   fst (publishImageFromLayerWithMediaType demo_lib demo_services OCILayer ''layer.tar.gz''
          demo_ic 7 demo_arch ''sboms'' [] False demo_tags demo_world) =
     (zero_Digest, None,
      Some (Wrap ''failed to publish'' (RetryError (replicate 10 (Error ''connection refused''))))) \<and>
   remote_targets (trace (snd (publishImageFromLayerWithMediaType demo_lib demo_services OCILayer
          ''layer.tar.gz'' demo_ic 7 demo_arch ''sboms'' [] False demo_tags demo_world))) =
     ''ok.example/app:v1'' # replicate 10 ''down.example/app:v1''"
  by (simp add: demo_defs build_defs publish_defs Let_def eval_nat_numeral)

subsection \<open>The order of an index\<close>

lemma append_archs_manifests:
  assumes "append_archs l imgs archs idx = Inr idx'"
  shows "\<exists>es. idx' = idx\<lparr>idx_Manifests := idx_Manifests idx @ es\<rparr> \<and>
              list_all2 (describes l imgs) archs es"
  using assms
proof (induction archs arbitrary: idx)
  case Nil
  then show ?case by simp
next
  case (Cons arch archs)
  from Cons.prems obtain img mt h sz where
    a: "map_of imgs arch = Some img" "image_MediaType l img = Inr mt" "image_Digest l img = Inr h"
       "image_Size l img = Inr sz"
    and r: "append_archs l imgs archs
              (AppendManifests idx
                 \<lparr>ia_Add = img,
                  ia_Descriptor = \<lparr>desc_MediaType = mt, desc_Digest = h, desc_Size = sz,
                                   desc_Platform = Some (ToOCIPlatform l arch)\<rparr>\<rparr>) = Inr idx'"
    by (auto split: option.splits sum.splits)
  let ?e = "\<lparr>ia_Add = img,
              ia_Descriptor = \<lparr>desc_MediaType = mt, desc_Digest = h, desc_Size = sz,
                               desc_Platform = Some (ToOCIPlatform l arch)\<rparr>\<rparr>"
  from Cons.IH [OF r] obtain es where
    es: "idx' = (AppendManifests idx ?e)\<lparr>idx_Manifests := idx_Manifests (AppendManifests idx ?e) @ es\<rparr>"
        "list_all2 (describes l imgs) archs es"
    by blast
  have "describes l imgs arch ?e"
    using a by (simp add: describes_def)
  with es have "idx' = idx\<lparr>idx_Manifests := idx_Manifests idx @ (?e # es)\<rparr> \<and>
                list_all2 (describes l imgs) (arch # archs) (?e # es)"
    by (simp add: AppendManifests_def)
  then show ?case by blast
qed

lemma append_archs_map_of:
  assumes "map_of imgs' = map_of imgs"
  shows "append_archs l imgs' archs idx = append_archs l imgs archs idx"
  by (induction archs arbitrary: idx) (simp_all add: assms cong: option.case_cong sum.case_cong)

lemma sorted_archs_perm:
  assumes "mset imgs' = mset imgs"
  shows "sorted_archs imgs' = sorted_archs imgs"
  unfolding sorted_archs_def
proof (rule sort_key_inj_key_eq)
  show "mset (map fst imgs') = mset (sort_key arch_String (map fst imgs))"
    using assms by simp
  have "inj arch_String"
    by (rule injI) (metis arch_String.elims)
  then show "inj_on arch_String (set (map fst imgs'))"
    by (rule inj_on_subset) simp
  show "sorted (map arch_String (sort_key arch_String (map fst imgs)))"
    by simp
qed

lemma map_of_perm:
  assumes "distinct (map fst imgs)" and "mset imgs' = mset imgs"
  shows "map_of imgs' = map_of imgs"
proof -
  have "mset (map fst imgs') = mset (map fst imgs)"
    using assms(2) by simp
  then have "distinct (map fst imgs')"
    using assms(1) by (metis mset_eq_imp_distinct_iff)
  moreover have "set imgs' = set imgs"
    using assms(2) by (rule mset_eq_setD)
  ultimately show ?thesis
    using assms(1) by (simp add: map_of_inject_set)
qed

lemma publish_index_perm:
  assumes "distinct (map fst imgs)" and "mset imgs' = mset imgs"
  shows "publishIndexWithMediaType l s mt ic imgs' local tags w =
         publishIndexWithMediaType l s mt ic imgs local tags w"
  by (simp add: publishIndexWithMediaType_def sorted_archs_perm [OF assms(2)]
      append_archs_map_of [OF map_of_perm [OF assms]])

lemma publish_index_tags_index:
  "fst (publish_index_tags l s idx h tags d w) = (d', Some idx', None) \<Longrightarrow> idx' = idx"
  by (induction tags arbitrary: d w) (auto split: prod.splits option.splits)

lemma promote_local_index:
  "fst (promote_local l s idx goos goarch m tags w) = (d', Some idx', None) \<Longrightarrow> idx' = idx"
  by (auto simp: promote_local_def Let_def split: sum.splits prod.splits option.splits)

lemma publish_index_remote_index:
  "fst (publish_index_remote l s idx tags w) = (d', Some idx', None) \<Longrightarrow> idx' = idx"
  by (auto simp: publish_index_remote_def dest: publish_index_tags_index split: sum.splits)

lemma publish_index_returns:
  assumes "fst (publishIndexWithMediaType l s mt ic imgs local tags w) = (d, Some idx, None)"
  shows "append_archs l imgs (sorted_archs imgs) (mutate_IndexMediaType empty_Index mt) = Inr idx"
  using assms
  unfolding publishIndexWithMediaType_def Let_def
  by (auto split: sum.splits if_splits option.splits
      dest: publish_index_remote_index promote_local_index)

text \<open>
  C6. The entries of the index that publishIndexWithMediaType returns are, in this
  order, the entries for the architectures of the map in ascending order of their
  string forms: each entry holds the image that the map has for its architecture,
  and its descriptor holds the media type, the digest and the size that the image
  gives and the OCI platform of the architecture. The whole outcome is the same for
  every order in which the map is visited.
\<close>

theorem index_ordering:
  assumes "fst (publishIndexWithMediaType l s mt ic imgs local tags w) = (d, Some idx, None)"
  shows "(\<exists>archs. sorted (map arch_String archs) \<and> mset archs = mset (map fst imgs) \<and>
            list_all2 (describes l imgs) archs (idx_Manifests idx)) \<and>
         (\<forall>imgs'. distinct (map fst imgs) \<and> mset imgs' = mset imgs \<longrightarrow>
            publishIndexWithMediaType l s mt ic imgs' local tags w =
            publishIndexWithMediaType l s mt ic imgs local tags w)"
proof -
  from append_archs_manifests [OF publish_index_returns [OF assms]]
  have "list_all2 (describes l imgs) (sorted_archs imgs) (idx_Manifests idx)"
    by (auto simp: mutate_IndexMediaType_def empty_Index_def)
  moreover have "sorted (map arch_String (sorted_archs imgs))"
    "mset (sorted_archs imgs) = mset (map fst imgs)"
    by (simp_all add: sorted_archs_def)
  ultimately show ?thesis
    using publish_index_perm by blast
qed

lemma demo_publish_index:
  "fst (publishIndexWithMediaType demo_lib demo_services OCIImageIndex demo_ic demo_imgs False
          [''ok.example/app:v1''] demo_world) =
     (repo_Digest ''ok.example/app'' ''sha256:ad64aa64'', Some demo_index, None)"
  by (simp add: demo_defs demo_index_def demo_entry_def index_defs publish_defs emit_def
      hash_String_def strings_Cut_def Let_def eval_nat_numeral)

theorem index_ordering_witness:
  "map fst demo_imgs = [Architecture ''arm64'', Architecture ''amd64''] \<and>
   fst (publishIndexWithMediaType demo_lib demo_services OCIImageIndex demo_ic demo_imgs False
          [''ok.example/app:v1''] demo_world) =
     (repo_Digest ''ok.example/app'' ''sha256:ad64aa64'', Some demo_index, None) \<and>
   map (\<lambda>e. desc_Platform (ia_Descriptor e)) (idx_Manifests demo_index) =
     [Some \<lparr>plat_OS = ''linux'', plat_Architecture = ''amd64'', plat_Variant = []\<rparr>,
      Some \<lparr>plat_OS = ''linux'', plat_Architecture = ''arm64'', plat_Variant = []\<rparr>] \<and>
   (\<exists>archs. sorted (map arch_String archs) \<and> mset archs = mset (map fst demo_imgs) \<and>
      list_all2 (describes demo_lib demo_imgs) archs (idx_Manifests demo_index)) \<and>
   publishIndexWithMediaType demo_lib demo_services OCIImageIndex demo_ic (rev demo_imgs) False
     [''ok.example/app:v1''] demo_world =
   publishIndexWithMediaType demo_lib demo_services OCIImageIndex demo_ic demo_imgs False
     [''ok.example/app:v1''] demo_world"
proof -
  have k: "map fst demo_imgs = [Architecture ''arm64'', Architecture ''amd64'']"
    by (simp add: demo_imgs_def)
  have pl: "map (\<lambda>e. desc_Platform (ia_Descriptor e)) (idx_Manifests demo_index) =
     [Some \<lparr>plat_OS = ''linux'', plat_Architecture = ''amd64'', plat_Variant = []\<rparr>,
      Some \<lparr>plat_OS = ''linux'', plat_Architecture = ''arm64'', plat_Variant = []\<rparr>]"
    by (simp add: demo_index_def demo_entry_def)
  have dm: "distinct (map fst demo_imgs) \<and> mset (rev demo_imgs) = mset demo_imgs"
    by (simp add: k)
  from index_ordering [OF demo_publish_index] dm
  have "(\<exists>archs. sorted (map arch_String archs) \<and> mset archs = mset (map fst demo_imgs) \<and>
      list_all2 (describes demo_lib demo_imgs) archs (idx_Manifests demo_index)) \<and>
     publishIndexWithMediaType demo_lib demo_services OCIImageIndex demo_ic (rev demo_imgs) False
       [''ok.example/app:v1''] demo_world =
     publishIndexWithMediaType demo_lib demo_services OCIImageIndex demo_ic demo_imgs False
       [''ok.example/app:v1''] demo_world"
    by blast
  with k pl demo_publish_index show ?thesis by blast
qed

subsection \<open>Publishing to the local store\<close>









end
